theory Spec2Isabelle
  imports Main
begin

chapter \<open>jira-release-action: a shallow embedding\<close>

text \<open>
  The action reads a flat configuration, validates it (\<^verbatim>\<open>schema.ts\<close>) and then either
  upserts or deletes a Jira project version (\<^verbatim>\<open>jira.ts\<close>), optionally tagging issues
  afterwards (\<^verbatim>\<open>main.ts\<close>).

  The embedding is organised as follows.
  \<^item> JavaScript strings are \<^typ>\<open>string\<close>; \<^verbatim>\<open>trim\<close> and \<^verbatim>\<open>split\<close> are written out.
  \<^item> \<^verbatim>\<open>Date\<close> follows ECMA-262: a time value is an \<^typ>\<open>int\<close> of milliseconds
    since the epoch, an invalid date is \<open>None\<close>, and \<^verbatim>\<open>toISOString\<close> on an invalid date
    throws a \<^verbatim>\<open>RangeError\<close>.
  \<^item> A thrown value is a value of type \<open>thrown\<close>; a function that can throw returns
    \<open>thrown + 'a\<close>.
  \<^item> The Jira client is a record of functions over an abstract tracker state \<open>'s\<close>;
    every \<^verbatim>\<open>async\<close> function of the action threads that state and returns the list
    of events (log lines and requests) it produced, in order.
\<close>

section \<open>JavaScript strings\<close>

text \<open>
  A \<^typ>\<open>char\<close> stands for a code unit below 256. \<open>is_ws\<close> lists the code units below 256
  that \<^verbatim>\<open>String.prototype.trim\<close> strips (ECMA-262 WhiteSpace and LineTerminator):
  TAB, LF, VT, FF, CR, SPACE and NBSP.
\<close>

definition is_ws :: "char \<Rightarrow> bool" where
  "is_ws c = (c \<in> set [CHR 0x09, CHR 0x0A, CHR 0x0B, CHR 0x0C, CHR 0x0D, CHR 0x20, CHR 0xA0])"

definition trim :: "string \<Rightarrow> string" where
  "trim s = rev (dropWhile is_ws (rev (dropWhile is_ws s)))"

text \<open>
  \<^verbatim>\<open>s.split(c)\<close> for a separator of one character: the pieces between the separators, in
  order; the empty string splits into one empty piece.
\<close>

fun split_on :: "char \<Rightarrow> string \<Rightarrow> string list" where
  "split_on c [] = [[]]"
| "split_on c (x # xs) =
     (if x = c then [] # split_on c xs
      else (case split_on c xs of [] \<Rightarrow> [[x]] | p # ps \<Rightarrow> (x # p) # ps))"

text \<open>\<^verbatim>\<open>xs[0]\<close>: the first element, or \<^verbatim>\<open>undefined\<close> on an empty array.\<close>

definition first_element :: "'a list \<Rightarrow> 'a option" where
  "first_element xs = (case xs of [] \<Rightarrow> None | x # _ \<Rightarrow> Some x)"

text \<open>
  Truthiness of a value of type \<^verbatim>\<open>string | undefined\<close>: \<^verbatim>\<open>undefined\<close> and the empty
  string are falsy.
\<close>

definition truthy :: "string option \<Rightarrow> bool" where
  "truthy x = (case x of None \<Rightarrow> False | Some s \<Rightarrow> s \<noteq> [])"

text \<open>Decimal digits: writing a number in a fixed number of digits, and reading digits.\<close>

definition digit_char :: "nat \<Rightarrow> char" where
  "digit_char n = char_of (48 + n)"

fun pad :: "nat \<Rightarrow> nat \<Rightarrow> string" where
  "pad 0 n = []"
| "pad (Suc k) n = pad k (n div 10) @ [digit_char (n mod 10)]"

definition digit_val :: "char \<Rightarrow> nat option" where
  "digit_val c =
     (let n = (of_char c :: nat) in if 48 \<le> n \<and> n \<le> 57 then Some (n - 48) else None)"

fun digits_acc :: "nat \<Rightarrow> string \<Rightarrow> nat option" where
  "digits_acc a [] = Some a"
| "digits_acc a (c # cs) =
     (case digit_val c of None \<Rightarrow> None | Some d \<Rightarrow> digits_acc (10 * a + d) cs)"

definition leading_number :: "nat \<Rightarrow> string \<Rightarrow> (nat \<times> string) option" where
  "leading_number k s =
     (if length s < k then None
      else (case digits_acc 0 (take k s) of
              None \<Rightarrow> None
            | Some v \<Rightarrow> Some (v, drop k s)))"

section \<open>JavaScript dates (ECMA-262)\<close>

text \<open>
  The action formats every release date with
  \<^verbatim>\<open>new Date(x).toISOString().split("T")[0]\<close>. The abstract operations below are those
  of ECMA-262 (Day, DaysInYear, DayFromYear, TimeFromYear, YearFromTime, InLeapYear,
  MonthFromTime, DateFromTime, MakeDay, TimeClip), on integers; \<open>div\<close> and \<open>mod\<close> on
  \<^typ>\<open>int\<close> round towards minus infinity, as the standard's floor and modulo do.
\<close>

definition msPerDay :: int where
  "msPerDay = 86400000"

definition Day :: "int \<Rightarrow> int" where
  "Day t = t div msPerDay"

definition DaysInYear :: "int \<Rightarrow> int" where
  "DaysInYear y =
     (if y mod 4 \<noteq> 0 then 365
      else if y mod 100 \<noteq> 0 then 366
      else if y mod 400 \<noteq> 0 then 365
      else 366)"

definition DayFromYear :: "int \<Rightarrow> int" where
  "DayFromYear y =
     365 * (y - 1970) + (y - 1969) div 4 - (y - 1901) div 100 + (y - 1601) div 400"

definition TimeFromYear :: "int \<Rightarrow> int" where
  "TimeFromYear y = msPerDay * DayFromYear y"

text \<open>
  Consecutive years start \<open>DaysInYear\<close> days apart; the search for the year of a time
  value below terminates because of it.
\<close>

lemma div_step:
  fixes a n :: int
  assumes "1 < n"
  shows "(a + 1) div n = a div n + (if (a + 1) mod n = 0 then 1 else 0)"
proof -
  have "(a + 1) div n = a div n + 1 div n + (a mod n + 1 mod n) div n"
    by (rule div_add1_eq)
  also have "1 div n = 0" using assms by simp
  also have "1 mod n = 1" using assms by simp
  finally have e: "(a + 1) div n = a div n + (a mod n + 1) div n" by simp
  have r: "0 \<le> a mod n" "a mod n < n" using assms by simp_all
  show ?thesis
  proof (cases "a mod n = n - 1")
    case True
    then have "(a + 1) mod n = 0"
      by (metis add.commute diff_add_cancel mod_add_left_eq mod_self add.commute)
    moreover have "(a mod n + 1) div n = 1" using True assms by simp
    ultimately show ?thesis using e by simp
  next
    case False
    then have lt: "a mod n + 1 < n" using r by simp
    then have "(a mod n + 1) div n = 0" using r by (simp add: div_pos_pos_trivial)
    moreover have "(a + 1) mod n = a mod n + 1"
    proof -
      have "(a + 1) mod n = (a mod n + 1) mod n" by (simp add: mod_add_left_eq)
      also have "\<dots> = a mod n + 1" using lt r by (simp add: mod_pos_pos_trivial)
      finally show ?thesis .
    qed
    ultimately show ?thesis using e r by simp
  qed
qed

lemma shift4: "(y - 1968) mod 4 = y mod (4::int)"
  using mod_mult_self1 [of y "- 492" 4] by simp

lemma shift100: "(y - 1900) mod 100 = y mod (100::int)"
  using mod_mult_self1 [of y "- 19" 100] by simp

lemma shift400: "(y - 1600) mod 400 = y mod (400::int)"
  using mod_mult_self1 [of y "- 4" 400] by simp

lemma mod100_4: "y mod 100 = 0 \<Longrightarrow> y mod 4 = (0::int)"
proof -
  assume "y mod 100 = 0"
  then have "100 dvd y" by (simp add: mod_eq_0_iff_dvd)
  moreover have "(4::int) dvd 100" by simp
  ultimately have "4 dvd y" by (rule dvd_trans [rotated])
  then show ?thesis by (simp add: mod_eq_0_iff_dvd)
qed

lemma mod400_100: "y mod 400 = 0 \<Longrightarrow> y mod 100 = (0::int)"
proof -
  assume "y mod 400 = 0"
  then have "400 dvd y" by (simp add: mod_eq_0_iff_dvd)
  moreover have "(100::int) dvd 400" by simp
  ultimately have "100 dvd y" by (rule dvd_trans [rotated])
  then show ?thesis by (simp add: mod_eq_0_iff_dvd)
qed

lemma DayFromYear_step: "DayFromYear (y + 1) = DayFromYear y + DaysInYear y"
proof -
  have a: "(y + 1 - 1969) div 4 = (y - 1969) div 4 + (if y mod 4 = 0 then 1 else 0)"
    using div_step [of 4 "y - 1969"] shift4 [of y] by (simp add: algebra_simps)
  have b: "(y + 1 - 1901) div 100 = (y - 1901) div 100 + (if y mod 100 = 0 then 1 else 0)"
    using div_step [of 100 "y - 1901"] shift100 [of y] by (simp add: algebra_simps)
  have c: "(y + 1 - 1601) div 400 = (y - 1601) div 400 + (if y mod 400 = 0 then 1 else 0)"
    using div_step [of 400 "y - 1601"] shift400 [of y] by (simp add: algebra_simps)
  have d: "y mod 100 = 0 \<Longrightarrow> y mod 4 = 0"
    by (rule mod100_4)
  have e: "y mod 400 = 0 \<Longrightarrow> y mod 100 = 0"
    by (rule mod400_100)
  show ?thesis
    unfolding DayFromYear_def DaysInYear_def a b c using d e by auto
qed

lemma DaysInYear_cases: "DaysInYear y = 365 \<or> DaysInYear y = 366"
  by (simp add: DaysInYear_def)

lemma TimeFromYear_less: "TimeFromYear y < TimeFromYear (y + 1)"
  using DaysInYear_cases [of y] by (auto simp: TimeFromYear_def msPerDay_def DayFromYear_step)

text \<open>
  YearFromTime(t) is the largest \<open>y\<close> with \<open>TimeFromYear y \<le> t\<close>. It is computed by
  a search from an estimate: down to a year that starts at or before \<open>t\<close>, then up to the
  last such year.
\<close>

function year_down :: "int \<Rightarrow> int \<Rightarrow> int" where
  "year_down t y = (if t < TimeFromYear y then year_down t (y - 1) else y)"
  by pat_completeness auto
termination
proof (relation "measure (\<lambda>(t, y). nat (TimeFromYear y - t))")
  show "wf (measure (\<lambda>(t, y). nat (TimeFromYear y - t)))" by simp
next
  fix t y :: int
  assume "t < TimeFromYear y"
  then show "((t, y - 1), (t, y)) \<in> measure (\<lambda>(t, y). nat (TimeFromYear y - t))"
    using TimeFromYear_less [of "y - 1"] by simp
qed

function year_up :: "int \<Rightarrow> int \<Rightarrow> int" where
  "year_up t y = (if TimeFromYear (y + 1) \<le> t then year_up t (y + 1) else y)"
  by pat_completeness auto
termination
proof (relation "measure (\<lambda>(t, y). nat (t + 1 - TimeFromYear y))")
  show "wf (measure (\<lambda>(t, y). nat (t + 1 - TimeFromYear y)))" by simp
next
  fix t y :: int
  assume "TimeFromYear (y + 1) \<le> t"
  then show "((t, y + 1), (t, y)) \<in> measure (\<lambda>(t, y). nat (t + 1 - TimeFromYear y))"
    using TimeFromYear_less [of y] by simp
qed

declare year_down.simps [simp del] year_up.simps [simp del]

definition YearFromTime :: "int \<Rightarrow> int" where
  "YearFromTime t = year_up t (year_down t (1970 + t div (365 * msPerDay)))"

definition DayWithinYear :: "int \<Rightarrow> int" where
  "DayWithinYear t = Day t - DayFromYear (YearFromTime t)"

text \<open>\<open>leap_flag y\<close> is 1 in a leap year and 0 otherwise (the standard's InLeapYear).\<close>

definition leap_flag :: "int \<Rightarrow> int" where
  "leap_flag y = (if DaysInYear y = 366 then 1 else 0)"

definition InLeapYear :: "int \<Rightarrow> int" where
  "InLeapYear t = leap_flag (YearFromTime t)"

definition MonthFromTime :: "int \<Rightarrow> int" where
  "MonthFromTime t =
     (let d = DayWithinYear t; l = InLeapYear t in
      if d < 31 then 0
      else if d < 59 + l then 1
      else if d < 90 + l then 2
      else if d < 120 + l then 3
      else if d < 151 + l then 4
      else if d < 181 + l then 5
      else if d < 212 + l then 6
      else if d < 243 + l then 7
      else if d < 273 + l then 8
      else if d < 304 + l then 9
      else if d < 334 + l then 10
      else 11)"

definition DateFromTime :: "int \<Rightarrow> int" where
  "DateFromTime t =
     (let d = DayWithinYear t; l = InLeapYear t; m = MonthFromTime t in
      if m = 0 then d + 1
      else if m = 1 then d - 30
      else if m = 2 then d - 58 - l
      else if m = 3 then d - 89 - l
      else if m = 4 then d - 119 - l
      else if m = 5 then d - 150 - l
      else if m = 6 then d - 180 - l
      else if m = 7 then d - 211 - l
      else if m = 8 then d - 242 - l
      else if m = 9 then d - 272 - l
      else if m = 10 then d - 303 - l
      else d - 333 - l)"

definition HourFromTime :: "int \<Rightarrow> int" where
  "HourFromTime t = (t div 3600000) mod 24"

definition MinFromTime :: "int \<Rightarrow> int" where
  "MinFromTime t = (t div 60000) mod 60"

definition SecFromTime :: "int \<Rightarrow> int" where
  "SecFromTime t = (t div 1000) mod 60"

definition msFromTime :: "int \<Rightarrow> int" where
  "msFromTime t = t mod 1000"

text \<open>
  MakeDay(year, month, date) is the day number of the given calendar day; \<open>MonthStart m l\<close>
  is the day within the year on which month \<open>m\<close> (from 0) starts.
\<close>

definition MonthStart :: "int \<Rightarrow> int \<Rightarrow> int" where
  "MonthStart m l =
     (if m = 0 then 0
      else if m = 1 then 31
      else if m = 2 then 59 + l
      else if m = 3 then 90 + l
      else if m = 4 then 120 + l
      else if m = 5 then 151 + l
      else if m = 6 then 181 + l
      else if m = 7 then 212 + l
      else if m = 8 then 243 + l
      else if m = 9 then 273 + l
      else if m = 10 then 304 + l
      else 334 + l)"

definition DaysInMonth :: "int \<Rightarrow> int \<Rightarrow> int" where
  "DaysInMonth y m =
     (if m = 1 then 28 + leap_flag y
      else if m = 3 \<or> m = 5 \<or> m = 8 \<or> m = 10 then 30
      else 31)"

definition MakeDay :: "int \<Rightarrow> int \<Rightarrow> int \<Rightarrow> int" where
  "MakeDay year month date =
     (let ym = year + month div 12; mn = month mod 12
      in DayFromYear ym + MonthStart mn (leap_flag ym) + date - 1)"

subsection \<open>Parsing a date string\<close>

text \<open>
  \<^verbatim>\<open>Date.parse\<close> must recognise the ECMA-262 date-time string format and may fall back to
  implementation-defined heuristics for any other string. The embedding writes out the
  date-only forms of the standard format, \<^verbatim>\<open>YYYY-MM-DD\<close> and the expanded years
  \<^verbatim>\<open>+YYYYYY-MM-DD\<close> and \<^verbatim>\<open>-YYYYYY-MM-DD\<close> (\<^verbatim>\<open>-000000\<close> is not a year), which denote
  midnight UTC of that day. Every other string, also one of these forms with a month or
  day out of range, is left to the parameter \<open>other\<close>, the rest of the engine's parser
  (\<open>None\<close> is NaN).
\<close>

definition ymd_time :: "int \<Rightarrow> nat \<Rightarrow> nat \<Rightarrow> int option" where
  "ymd_time year m d =
     (if m < 1 \<or> 12 < m \<or> d < 1 \<or> DaysInMonth year (int m - 1) < int d then None
      else Some (msPerDay * MakeDay year (int m - 1) (int d)))"

definition parse_month_day :: "int \<Rightarrow> string \<Rightarrow> int option" where
  "parse_month_day year rest =
     (case rest of
        [h1, m1, m2, h2, d1, d2] \<Rightarrow>
          if h1 = CHR ''-'' \<and> h2 = CHR ''-'' then
            (case digits_acc 0 [m1, m2] of
               None \<Rightarrow> None
             | Some m \<Rightarrow>
                 (case digits_acc 0 [d1, d2] of
                    None \<Rightarrow> None
                  | Some d \<Rightarrow> ymd_time year m d))
          else None
      | _ \<Rightarrow> None)"

definition parse_iso_date :: "string \<Rightarrow> int option" where
  "parse_iso_date s =
     (case s of
        [] \<Rightarrow> None
      | c # cs \<Rightarrow>
          if c = CHR ''+'' \<or> c = CHR ''-'' then
            (case leading_number 6 cs of
               None \<Rightarrow> None
             | Some (y, rest) \<Rightarrow>
                 if c = CHR ''-'' \<and> y = 0 then None
                 else parse_month_day (if c = CHR ''-'' then - int y else int y) rest)
          else
            (case leading_number 4 s of
               None \<Rightarrow> None
             | Some (y, rest) \<Rightarrow> parse_month_day (int y) rest))"

definition Date_parse :: "(string \<Rightarrow> int option) \<Rightarrow> string \<Rightarrow> int option" where
  "Date_parse other s = (case parse_iso_date s of Some t \<Rightarrow> Some t | None \<Rightarrow> other s)"

text \<open>
  A Date object holds a time value of at most 8.64e15 milliseconds in absolute value, or
  NaN: \<open>TimeClip\<close>. \<open>new_Date other s\<close> is the time value of \<^verbatim>\<open>new Date(s)\<close>.
\<close>

definition TimeClip :: "int \<Rightarrow> int option" where
  "TimeClip t = (if \<bar>t\<bar> \<le> 8640000000000000 then Some t else None)"

definition new_Date :: "(string \<Rightarrow> int option) \<Rightarrow> string \<Rightarrow> int option" where
  "new_Date other s = (case Date_parse other s of None \<Rightarrow> None | Some t \<Rightarrow> TimeClip t)"

definition in_range :: "int \<Rightarrow> bool" where
  "in_range t = (\<bar>t\<bar> \<le> 8640000000000000)"

subsection \<open>Formatting a date\<close>

text \<open>
  \<^verbatim>\<open>Date.prototype.toISOString\<close>: \<^verbatim>\<open>YYYY-MM-DDTHH:mm:ss.sssZ\<close> in UTC, the year in four
  digits from 0 to 9999 and as a sign and six digits otherwise.
\<close>

definition year_string :: "int \<Rightarrow> string" where
  "year_string y =
     (if 0 \<le> y \<and> y \<le> 9999 then pad 4 (nat y)
      else (if y < 0 then CHR ''-'' else CHR ''+'') # pad 6 (nat \<bar>y\<bar>))"

definition toISOString :: "int \<Rightarrow> string" where
  "toISOString t =
     year_string (YearFromTime t) @ ''-'' @ pad 2 (nat (MonthFromTime t + 1)) @ ''-''
       @ pad 2 (nat (DateFromTime t)) @ ''T'' @ pad 2 (nat (HourFromTime t)) @ '':''
       @ pad 2 (nat (MinFromTime t)) @ '':'' @ pad 2 (nat (SecFromTime t)) @ ''.''
       @ pad 3 (nat (msFromTime t)) @ ''Z''"

text \<open>
  The UTC calendar day of a time value, written year-month-day: what the specification
  calls the date in \<^verbatim>\<open>YYYY-MM-DD\<close>. It is stated on its own, not through
  \<open>toISOString\<close>, and compared with what the code computes in
  \<open>iso_date_part_Some\<close>.
\<close>

definition utc_day_string :: "int \<Rightarrow> string" where
  "utc_day_string t =
     year_string (YearFromTime t) @ ''-'' @ pad 2 (nat (MonthFromTime t + 1)) @ ''-''
       @ pad 2 (nat (DateFromTime t))"

section \<open>Thrown values and the platform\<close>

text \<open>
  Anything can be thrown in JavaScript. \<open>ErrorInstance n m\<close> is an object for which
  \<^verbatim>\<open>instanceof Error\<close> holds, with its \<^verbatim>\<open>name\<close> and \<^verbatim>\<open>message\<close>; \<open>NotAnError\<close> is
  any other thrown value (a plain object, a string). \<^verbatim>\<open>JSON.stringify\<close> returns on both.
  \<open>UnserialisableError n m\<close> and \<open>UnserialisableValue\<close> are an instance of
  \<^verbatim>\<open>Error\<close> and another value on which \<^verbatim>\<open>JSON.stringify\<close> throws (a circular
  structure, a BigInt inside). The errors the action and its platform create themselves
  (\<^verbatim>\<open>new Error\<close>, the \<^verbatim>\<open>RangeError\<close> of \<^verbatim>\<open>toISOString\<close>, valibot's
  \<^verbatim>\<open>ValiError\<close>, the errors of \<^verbatim>\<open>@actions/core\<close>) are of the first kind; what the
  client library throws can be of any kind.
\<close>

datatype thrown =
    ErrorInstance string string
  | NotAnError
  | UnserialisableError string string
  | UnserialisableValue

definition instanceof_Error :: "thrown \<Rightarrow> bool" where
  "instanceof_Error e =
     (case e of
        ErrorInstance n m \<Rightarrow> True
      | UnserialisableError n m \<Rightarrow> True
      | _ \<Rightarrow> False)"

definition error_message :: "thrown \<Rightarrow> string" where
  "error_message e =
     (case e of
        ErrorInstance n m \<Rightarrow> m
      | UnserialisableError n m \<Rightarrow> m
      | _ \<Rightarrow> [])"

definition serialisable :: "thrown \<Rightarrow> bool" where
  "serialisable e =
     (case e of
        ErrorInstance n m \<Rightarrow> True
      | NotAnError \<Rightarrow> True
      | _ \<Rightarrow> False)"

text \<open>
  What the action takes from its platform and does not define itself: the
  implementation-defined part of \<^verbatim>\<open>Date.parse\<close>, the time value of \<^verbatim>\<open>new Date()\<close>
  when \<^verbatim>\<open>prepareUpsertParams\<close> reads the clock (always in the range of a Date on a real
  platform), the message valibot gives a \<^verbatim>\<open>picklist\<close> issue for the value received,
  and what \<^verbatim>\<open>JSON.stringify\<close> throws on a value it cannot serialise.
\<close>

record platform =
  date_parse_other :: "string \<Rightarrow> int option"
  clock :: int
  picklist_message :: "string \<Rightarrow> string"
  json_error :: "thrown \<Rightarrow> thrown"

text \<open>
  \<^verbatim>\<open>toISOString\<close> throws a \<^verbatim>\<open>RangeError\<close> on an invalid date (the message is V8's).
\<close>

definition Date_toISOString :: "int option \<Rightarrow> thrown + string" where
  "Date_toISOString tv =
     (case tv of
        None \<Rightarrow> Inl (ErrorInstance ''RangeError'' ''Invalid time value'')
      | Some t \<Rightarrow> Inr (toISOString t))"

text \<open>\<^verbatim>\<open>date.toISOString().split("T")[0]\<close>, of type \<^verbatim>\<open>string | undefined\<close>.\<close>

definition iso_date_part :: "int option \<Rightarrow> thrown + string option" where
  "iso_date_part tv =
     (case Date_toISOString tv of
        Inl e \<Rightarrow> Inl e
      | Inr text \<Rightarrow> Inr (first_element (split_on CHR ''T'' text)))"

text \<open>
  The two shapes in which \<^verbatim>\<open>jira.ts\<close> reformats a release date:
  \<^verbatim>\<open>x ? new Date(x).toISOString().split("T")[0] : undefined\<close>
  (in \<^verbatim>\<open>upsertProjectVersion\<close> and in the object \<^verbatim>\<open>prepareUpsertParams\<close> returns), and
  \<^verbatim>\<open>if (x) { x = new Date(x).toISOString().split("T")[0]; }\<close>
  (in the body of \<^verbatim>\<open>prepareUpsertParams\<close>), which leaves a falsy \<open>x\<close> as it is.
\<close>

definition reformat_or_undefined :: "platform \<Rightarrow> string option \<Rightarrow> thrown + string option" where
  "reformat_or_undefined pf x =
     (case x of
        None \<Rightarrow> Inr None
      | Some s \<Rightarrow>
          if s \<noteq> [] then iso_date_part (new_Date (date_parse_other pf) s) else Inr None)"

definition reformat_if_set :: "platform \<Rightarrow> string option \<Rightarrow> thrown + string option" where
  "reformat_if_set pf x =
     (case x of
        None \<Rightarrow> Inr x
      | Some s \<Rightarrow>
          if s \<noteq> [] then iso_date_part (new_Date (date_parse_other pf) s) else Inr x)"

section \<open>The Jira client and the events of a run\<close>

text \<open>\<^verbatim>\<open>ProjectVersionUpsertParams\<close> of \<^verbatim>\<open>jira.ts\<close>; optional fields are options.\<close>

record ProjectVersionUpsertParams =
  name :: string
  description :: "string option"
  released :: bool
  releaseDate :: "string option"
  archived :: bool

text \<open>
  A version as the tracker returns it. The action reads two of its fields,
  \<^verbatim>\<open>id\<close> and \<^verbatim>\<open>name\<close>, both optional in the client library's type.
\<close>

record Version =
  version_id :: "string option"
  version_name :: "string option"

record ClientConfig =
  host :: string
  auth_email :: string
  auth_apiToken :: string

text \<open>
  The methods of \<^verbatim>\<open>Version3Client\<close> that the action calls. The tracker is outside the
  action: each method is a function of the tracker's state \<open>'s\<close> that either rejects
  with a thrown value or resolves with a result.
  \<^verbatim>\<open>getProjectVersionsPaginated\<close> takes the project key and the query and resolves
  with the page's \<^verbatim>\<open>values\<close> (optional); \<^verbatim>\<open>getProject\<close> resolves with the project's
  \<^verbatim>\<open>id\<close>; \<^verbatim>\<open>createVersion\<close> takes the prepared parameters and the project id;
  \<^verbatim>\<open>updateVersion\<close> the prepared parameters and the version id;
  \<^verbatim>\<open>deleteAndReplaceVersion\<close> the version id; \<open>editIssue\<close> an issue key and the
  version id to set as its fix version.
\<close>

record 's Version3Client =
  getProjectVersionsPaginated ::
    "string \<Rightarrow> string \<Rightarrow> 's \<Rightarrow> (thrown + Version list option) \<times> 's"
  getProject :: "string \<Rightarrow> 's \<Rightarrow> (thrown + string) \<times> 's"
  createVersion ::
    "ProjectVersionUpsertParams \<Rightarrow> string \<Rightarrow> 's \<Rightarrow> (thrown + Version) \<times> 's"
  updateVersion ::
    "ProjectVersionUpsertParams \<Rightarrow> string \<Rightarrow> 's \<Rightarrow> (thrown + Version) \<times> 's"
  deleteAndReplaceVersion :: "string \<Rightarrow> 's \<Rightarrow> (thrown + unit) \<times> 's"
  editIssue :: "string \<Rightarrow> string option \<Rightarrow> 's \<Rightarrow> (thrown + unit) \<times> 's"

text \<open>The object \<^verbatim>\<open>run\<close> builds from the action's inputs.\<close>

record Inputs =
  email :: string
  api_token :: string
  subdomain :: string
  jira_project :: string
  release_name :: string
  operation :: string
  tickets :: string
  dry_run :: bool
  release_description :: string
  release_released :: bool
  release_release_date :: string
  release_archived :: bool

datatype request =
    GetProjectVersionsPaginated string string
  | GetProject string
  | CreateVersion ProjectVersionUpsertParams string
  | UpdateVersion ProjectVersionUpsertParams string
  | DeleteAndReplaceVersion string
  | EditIssue string "string option"

text \<open>
  What a run does that can be seen from outside, in order: \<^verbatim>\<open>core.info\<close> lines
  (\<open>InfoConfig\<close> is the line that prints \<^verbatim>\<open>JSON.stringify(input, null, 2)\<close>), requests
  to the tracker, the rejection of a request, and \<^verbatim>\<open>core.setFailed\<close>. The
  \<^verbatim>\<open>core.debug\<close> lines are not events. Those of the \<^verbatim>\<open>try\<close> block and of
  \<^verbatim>\<open>jira.ts\<close> print the validated input, the tracker's answers and the prepared
  parameters, which are data that \<^verbatim>\<open>JSON.stringify\<close> serialises; the one in the
  \<^verbatim>\<open>catch\<close> block prints the value caught and is part of \<open>run\<close>, for what it can
  throw.
\<close>

datatype event =
    Info string
  | InfoConfig Inputs
  | Request request
  | Rejected thrown
  | SetFailed string

text \<open>
  An \<^verbatim>\<open>async\<close> function: from the tracker's state to what it threw or returned, the
  new state and the events it produced. \<open>io_bind\<close> is \<^verbatim>\<open>await\<close> followed by the rest of
  the function body: a rejection ends the body.
\<close>

type_synonym ('s, 'a) io = "'s \<Rightarrow> (thrown + 'a) \<times> 's \<times> event list"

definition io_return :: "'a \<Rightarrow> ('s, 'a) io" where
  "io_return a = (\<lambda>s. (Inr a, s, []))"

definition io_throw :: "thrown \<Rightarrow> ('s, 'a) io" where
  "io_throw e = (\<lambda>s. (Inl e, s, []))"

definition io_lift :: "thrown + 'a \<Rightarrow> ('s, 'a) io" where
  "io_lift r = (\<lambda>s. (r, s, []))"

definition io_bind :: "('s, 'a) io \<Rightarrow> ('a \<Rightarrow> ('s, 'b) io) \<Rightarrow> ('s, 'b) io" where
  "io_bind m f =
     (\<lambda>s. case m s of
            (Inl e, s1, ev1) \<Rightarrow> (Inl e, s1, ev1)
          | (Inr a, s1, ev1) \<Rightarrow> (case f a s1 of (r, s2, ev2) \<Rightarrow> (r, s2, ev1 @ ev2)))"

definition core_info :: "string \<Rightarrow> ('s, unit) io" where
  "core_info msg = (\<lambda>s. (Inr (), s, [Info msg]))"

definition await_request :: "request \<Rightarrow> ('s \<Rightarrow> (thrown + 'a) \<times> 's) \<Rightarrow> ('s, 'a) io" where
  "await_request q f =
     (\<lambda>s. case f s of
            (Inl e, s1) \<Rightarrow> (Inl e, s1, [Request q, Rejected e])
          | (Inr a, s1) \<Rightarrow> (Inr a, s1, [Request q]))"

text \<open>Projections of an event list.\<close>

fun requests :: "event list \<Rightarrow> request list" where
  "requests [] = []"
| "requests (Request q # ev) = q # requests ev"
| "requests (_ # ev) = requests ev"

fun sent_payloads :: "event list \<Rightarrow> ProjectVersionUpsertParams list" where
  "sent_payloads [] = []"
| "sent_payloads (Request (CreateVersion p i) # ev) = p # sent_payloads ev"
| "sent_payloads (Request (UpdateVersion p i) # ev) = p # sent_payloads ev"
| "sent_payloads (_ # ev) = sent_payloads ev"

fun tagging_requests :: "event list \<Rightarrow> (string \<times> string option) list" where
  "tagging_requests [] = []"
| "tagging_requests (Request (EditIssue k v) # ev) = (k, v) # tagging_requests ev"
| "tagging_requests (_ # ev) = tagging_requests ev"

fun failure_signals :: "event list \<Rightarrow> string list" where
  "failure_signals [] = []"
| "failure_signals (SetFailed m # ev) = m # failure_signals ev"
| "failure_signals (_ # ev) = failure_signals ev"


section \<open>jira.ts\<close>

text \<open>
  \<^verbatim>\<open>
  export async function createJiraClient(email, apiToken, subdomain) {
    const host = `https://${subdomain}.atlassian.net`;
    return new Version3Client({ host, authentication: { basic: { email, apiToken } } });
  }
  \<close>
  The constructor of the client library is the parameter \<open>new_client\<close>: it either
  throws (the library refuses a host that is not a URL) or returns the client for that
  host and those credentials.
\<close>

definition createJiraClient ::
  "(ClientConfig \<Rightarrow> thrown + 's Version3Client) \<Rightarrow> string \<Rightarrow> string \<Rightarrow> string
     \<Rightarrow> thrown + 's Version3Client" where
  "createJiraClient new_client em apiToken sub =
     new_client
       \<lparr>host = ''https://'' @ sub @ ''.atlassian.net'', auth_email = em,
        auth_apiToken = apiToken\<rparr>"

text \<open>
  \<^verbatim>\<open>
  async function getProjectVersionByName(client, projectKey, name) {
    core.info(`Getting version ${name}...`);
    const versions = await client.projectVersions.getProjectVersionsPaginated({
      projectIdOrKey: projectKey, query: name });
    return versions.values?.find((v) => v.name === name) || null;
  }
  \<close>
\<close>

definition getProjectVersionByName ::
  "'s Version3Client \<Rightarrow> string \<Rightarrow> string \<Rightarrow> ('s, Version option) io" where
  "getProjectVersionByName client projectKey nm =
     io_bind (core_info (''Getting version '' @ nm @ ''...'')) (\<lambda>_.
     io_bind (await_request (GetProjectVersionsPaginated projectKey nm)
                (getProjectVersionsPaginated client projectKey nm)) (\<lambda>versions.
     io_return (case versions of
                  None \<Rightarrow> None
                | Some vs \<Rightarrow> find (\<lambda>v. version_name v = Some nm) vs)))"

text \<open>
  \<^verbatim>\<open>version?.id\<close> as a condition, and \<^verbatim>\<open>!version || !version.id\<close> negated: the id of a
  version that was found and has a non-empty id.
\<close>

definition truthy_id :: "Version option \<Rightarrow> string option" where
  "truthy_id version =
     (case version of
        None \<Rightarrow> None
      | Some v \<Rightarrow>
          (case version_id v of None \<Rightarrow> None | Some i \<Rightarrow> if i = [] then None else Some i))"

text \<open>
  \<^verbatim>\<open>
  export async function deleteProjectVersionByName(client, projectKey, name) {
    const version = await getProjectVersionByName(client, projectKey, name);
    if (!version || !version.id) {
      throw new Error(`Version ${name} not found`);
    }
    core.info(`Deleting version ${name}...`);
    await client.projectVersions.deleteAndReplaceVersion({ id: version.id });
  }
  \<close>
\<close>

definition deleteProjectVersionByName ::
  "'s Version3Client \<Rightarrow> string \<Rightarrow> string \<Rightarrow> ('s, unit) io" where
  "deleteProjectVersionByName client projectKey nm =
     io_bind (getProjectVersionByName client projectKey nm) (\<lambda>version.
     case truthy_id version of
       None \<Rightarrow> io_throw (ErrorInstance ''Error'' (''Version '' @ nm @ '' not found''))
     | Some i \<Rightarrow>
         io_bind (core_info (''Deleting version '' @ nm @ ''...'')) (\<lambda>_.
         await_request (DeleteAndReplaceVersion i) (deleteAndReplaceVersion client i)))"

definition getProjectId :: "'s Version3Client \<Rightarrow> string \<Rightarrow> ('s, string) io" where
  "getProjectId client projectKey =
     await_request (GetProject projectKey) (getProject client projectKey)"

text \<open>
  \<^verbatim>\<open>
  function prepareUpsertParams(params) {
    if (params.released && !params.releaseDate) {
      params.releaseDate = new Date().toISOString().split("T")[0];
    } else if (!params.released) {
      params.releaseDate = undefined;
    }
    if (params.releaseDate) {
      params.releaseDate = new Date(params.releaseDate).toISOString().split("T")[0];
    }
    return {
      ...params,
      releaseDate: params.releaseDate
        ? new Date(params.releaseDate).toISOString().split("T")[0]
        : undefined,
    };
  }
  \<close>
  The three assignments to \<^verbatim>\<open>releaseDate\<close> are \<open>d1\<close>, \<open>d2\<close> and \<open>d3\<close>.
\<close>

definition prepareUpsertParams ::
  "platform \<Rightarrow> ProjectVersionUpsertParams \<Rightarrow> thrown + ProjectVersionUpsertParams" where
  "prepareUpsertParams pf params =
     (case (if released params \<and> \<not> truthy (releaseDate params)
            then iso_date_part (TimeClip (clock pf))
            else if \<not> released params then Inr None
            else Inr (releaseDate params)) of
        Inl e \<Rightarrow> Inl e
      | Inr d1 \<Rightarrow>
          (case reformat_if_set pf d1 of
             Inl e \<Rightarrow> Inl e
           | Inr d2 \<Rightarrow>
               (case reformat_or_undefined pf d2 of
                  Inl e \<Rightarrow> Inl e
                | Inr d3 \<Rightarrow> Inr (params\<lparr>releaseDate := d3\<rparr>))))"

text \<open>
  \<^verbatim>\<open>createProjectVersion\<close> resolves the project id first, then prepares the parameters
  and sends \<^verbatim>\<open>{...preparedParams, projectId}\<close>; \<^verbatim>\<open>updateProjectVersion\<close> prepares the
  parameters and sends \<^verbatim>\<open>{...preparedParams, id: versionId}\<close>.
\<close>

definition createProjectVersion ::
  "platform \<Rightarrow> 's Version3Client \<Rightarrow> string \<Rightarrow> ProjectVersionUpsertParams
     \<Rightarrow> ('s, Version) io" where
  "createProjectVersion pf client projectKey params =
     io_bind (getProjectId client projectKey) (\<lambda>projectId.
     io_bind (io_lift (prepareUpsertParams pf params)) (\<lambda>preparedParams.
     io_bind (core_info (''Creating project version '' @ name preparedParams @ ''...'')) (\<lambda>_.
     await_request (CreateVersion preparedParams projectId)
       (createVersion client preparedParams projectId))))"

definition updateProjectVersion ::
  "platform \<Rightarrow> 's Version3Client \<Rightarrow> string \<Rightarrow> ProjectVersionUpsertParams
     \<Rightarrow> ('s, Version) io" where
  "updateProjectVersion pf client versionId params =
     io_bind (io_lift (prepareUpsertParams pf params)) (\<lambda>preparedParams.
     io_bind (core_info (''Updating project version '' @ name preparedParams @ ''...'')) (\<lambda>_.
     await_request (UpdateVersion preparedParams versionId)
       (updateVersion client preparedParams versionId)))"

text \<open>
  \<^verbatim>\<open>
  export async function upsertProjectVersion(client, projectKey, params) {
    params.releaseDate = params.releaseDate
      ? new Date(params.releaseDate).toISOString().split("T")[0]
      : undefined;
    const version = await getProjectVersionByName(client, projectKey, params.name);
    if (version?.id) {
      return await updateProjectVersion(client, version.id, params);
    }
    return await createProjectVersion(client, projectKey, params);
  }
  \<close>
\<close>

definition upsertProjectVersion ::
  "platform \<Rightarrow> 's Version3Client \<Rightarrow> string \<Rightarrow> ProjectVersionUpsertParams
     \<Rightarrow> ('s, Version) io" where
  "upsertProjectVersion pf client projectKey params =
     io_bind (io_lift (reformat_or_undefined pf (releaseDate params))) (\<lambda>d.
     io_bind (getProjectVersionByName client projectKey (name params)) (\<lambda>version.
     case truthy_id version of
       Some i \<Rightarrow> updateProjectVersion pf client i (params\<lparr>releaseDate := d\<rparr>)
     | None \<Rightarrow> createProjectVersion pf client projectKey (params\<lparr>releaseDate := d\<rparr>)))"

text \<open>
  Modelled from the spec: \<^verbatim>\<open>setVersionOnIssues\<close> is imported by \<^verbatim>\<open>main.ts\<close> from
  \<^verbatim>\<open>jira.ts\<close>, whose available source does not define it. The specification (4.5, Issue
  Tagger): "For each issue key, issues one independent set fix-version update request.
  Requests are issued sequentially; the first failure aborts the remaining requests and
  propagates. Empty input list is a no-op."
\<close>

fun setVersionOnIssues ::
  "'s Version3Client \<Rightarrow> string option \<Rightarrow> string list \<Rightarrow> ('s, unit) io" where
  "setVersionOnIssues client versionId [] = io_return ()"
| "setVersionOnIssues client versionId (k # ks) =
     io_bind (await_request (EditIssue k versionId) (editIssue client k versionId)) (\<lambda>_.
     setVersionOnIssues client versionId ks)"

section \<open>schema.ts\<close>

text \<open>
  \<^verbatim>\<open>
  v.check((input) => {
    if (input.release_release_date.trim() !== "") {
      const date = new Date(input.release_release_date);
      return !Number.isNaN(date.getTime());
    }
    return true;
  }, "Release date must be a valid date.")
  \<close>
  The object schema accepts the strings and booleans of \<open>Inputs\<close> as they are and
  restricts \<^verbatim>\<open>operation\<close> to the picklist; the check runs on an object that passed it.
  \<open>InputSchema pf inputs\<close> is \<^verbatim>\<open>v.parse(InputSchema, inputs)\<close>, which throws a
  \<^verbatim>\<open>ValiError\<close> with the message of the first issue.
\<close>

definition release_date_check :: "platform \<Rightarrow> Inputs \<Rightarrow> bool" where
  "release_date_check pf input =
     (if trim (release_release_date input) \<noteq> []
      then new_Date (date_parse_other pf) (release_release_date input) \<noteq> None
      else True)"

definition InputSchema :: "platform \<Rightarrow> Inputs \<Rightarrow> thrown + Inputs" where
  "InputSchema pf inputs =
     (if operation inputs \<noteq> ''create_or_update'' \<and> operation inputs \<noteq> ''delete''
      then Inl (ErrorInstance ''ValiError'' (picklist_message pf (operation inputs)))
      else if \<not> release_date_check pf inputs
      then Inl (ErrorInstance ''ValiError'' ''Release date must be a valid date.'')
      else Inr inputs)"

section \<open>main.ts\<close>

text \<open>The object literal that \<^verbatim>\<open>run\<close> passes to \<^verbatim>\<open>upsertProjectVersion\<close>.\<close>

definition upsert_params_of :: "Inputs \<Rightarrow> ProjectVersionUpsertParams" where
  "upsert_params_of input =
     \<lparr>name = release_name input,
      description = Some (release_description input),
      released = release_released input,
      releaseDate = (if release_release_date input \<noteq> []
                     then Some (release_release_date input) else None),
      archived = release_archived input\<rparr>"

subsection \<open>Reading the inputs\<close>

text \<open>
  \<^verbatim>\<open>getInput\<close> and \<^verbatim>\<open>getBooleanInput\<close> of \<^verbatim>\<open>@actions/core\<close>, as the library defines
  them. \<open>env nm\<close> is the raw value the runner holds for the input \<open>nm\<close>, the empty
  string when there is none. A required input that is empty throws; every value is
  trimmed (the action never passes \<^verbatim>\<open>trimWhitespace: false\<close>); a boolean input is one of
  the six spellings or throws a \<^verbatim>\<open>TypeError\<close>.
\<close>

definition getInput :: "(string \<Rightarrow> string) \<Rightarrow> string \<Rightarrow> bool \<Rightarrow> thrown + string" where
  "getInput env nm required =
     (let val = env nm
      in if required \<and> val = []
         then Inl (ErrorInstance ''Error'' (''Input required and not supplied: '' @ nm))
         else Inr (trim val))"

definition getBooleanInput :: "(string \<Rightarrow> string) \<Rightarrow> string \<Rightarrow> bool \<Rightarrow> thrown + bool" where
  "getBooleanInput env nm required =
     (case getInput env nm required of
        Inl e \<Rightarrow> Inl e
      | Inr val \<Rightarrow>
          if val = ''true'' \<or> val = ''True'' \<or> val = ''TRUE'' then Inr True
          else if val = ''false'' \<or> val = ''False'' \<or> val = ''FALSE'' then Inr False
          else Inl (ErrorInstance ''TypeError''
                 (''Input does not meet YAML 1.2 '' @ [CHR 0x22] @ ''Core Schema'' @ [CHR 0x22]
                    @ '' specification: '' @ nm @ [CHR 0x0A]
                    @ ''Support boolean input list: `true | True | TRUE | false | False | FALSE`'')))"

text \<open>
  The object literal \<^verbatim>\<open>inputs\<close> at the head of the \<^verbatim>\<open>try\<close> block: twelve reads in
  the order of the source, the first six required; the first that throws ends the block.
\<close>

definition then_read :: "thrown + 'a \<Rightarrow> ('a \<Rightarrow> thrown + 'b) \<Rightarrow> thrown + 'b" where
  "then_read r f = (case r of Inl e \<Rightarrow> Inl e | Inr a \<Rightarrow> f a)"

definition read_inputs :: "(string \<Rightarrow> string) \<Rightarrow> thrown + Inputs" where
  "read_inputs env =
     then_read (getInput env ''email'' True) (\<lambda>v1.
     then_read (getInput env ''api_token'' True) (\<lambda>v2.
     then_read (getInput env ''subdomain'' True) (\<lambda>v3.
     then_read (getInput env ''jira_project'' True) (\<lambda>v4.
     then_read (getInput env ''release_name'' True) (\<lambda>v5.
     then_read (getInput env ''operation'' True) (\<lambda>v6.
     then_read (getInput env ''tickets'' False) (\<lambda>v7.
     then_read (getBooleanInput env ''dry_run'' False) (\<lambda>v8.
     then_read (getInput env ''release_description'' False) (\<lambda>v9.
     then_read (getBooleanInput env ''release_released'' False) (\<lambda>v10.
     then_read (getInput env ''release_release_date'' False) (\<lambda>v11.
     then_read (getBooleanInput env ''release_archived'' False) (\<lambda>v12.
     Inr \<lparr>email = v1, api_token = v2, subdomain = v3, jira_project = v4,
          release_name = v5, operation = v6, tickets = v7, dry_run = v8,
          release_description = v9, release_released = v10,
          release_release_date = v11, release_archived = v12\<rparr>))))))))))))"

subsection \<open>The run\<close>

text \<open>
  The body of the \<^verbatim>\<open>try\<close> block of \<^verbatim>\<open>run\<close>: the inputs are read and validated, a
  dry run reports them and returns, and otherwise the client is built and the operation
  dispatched. \<open>connect\<close> is the constructor of the client library.
  \<^verbatim>\<open>input.release_release_date || undefined\<close> turns the empty string into
  \<^verbatim>\<open>undefined\<close>; \<^verbatim>\<open>if (input.tickets)\<close> holds for a non-empty string;
  \<^verbatim>\<open>version.id!\<close> is the id as it is (the assertion is erased at compile time).
\<close>

definition run_try ::
  "platform \<Rightarrow> (ClientConfig \<Rightarrow> thrown + 's Version3Client) \<Rightarrow> (string \<Rightarrow> string)
     \<Rightarrow> ('s, unit) io" where
  "run_try pf connect env =
     io_bind (io_lift (read_inputs env)) (\<lambda>inputs.
     io_bind (io_lift (InputSchema pf inputs)) (\<lambda>input.
     if dry_run input then
       io_bind (core_info ''Dry run enabled, dumping config:'') (\<lambda>_.
       (\<lambda>s. (Inr (), s, [InfoConfig input])))
     else
       io_bind (core_info (''Performing release operation '' @ operation input
                  @ '' on project '' @ jira_project input
                  @ '' for release '' @ release_name input @ ''...'')) (\<lambda>_.
       io_bind (io_lift (createJiraClient connect (email input) (api_token input)
                  (subdomain input))) (\<lambda>client.
       if operation input = ''create_or_update'' then
         io_bind (upsertProjectVersion pf client (jira_project input)
                    (upsert_params_of input)) (\<lambda>version.
         if tickets input \<noteq> [] then
           setVersionOnIssues client (version_id version)
             (map trim (split_on CHR '','' (tickets input)))
         else io_return ())
       else if operation input = ''delete'' then
         deleteProjectVersionByName client (jira_project input) (release_name input)
       else io_return ()))))"

text \<open>
  \<^verbatim>\<open>
  } catch (error) {
    core.debug(JSON.stringify(error, null, 2));
    // Fail the workflow run if an error occurs
    if (error instanceof Error) core.setFailed(error.message);
  }
  \<close>
  \<open>run\<close> is the whole function: what the promise it returns rejects with (\<open>Inl\<close>) or
  that it resolves (\<open>Inr\<close>), the tracker's final state and the events of the run.
  \<^verbatim>\<open>JSON.stringify\<close> is the first statement of the handler: when it throws on the value
  caught, nothing catches that, \<^verbatim>\<open>setFailed\<close> is not reached and the promise rejects.
\<close>

definition run ::
  "platform \<Rightarrow> (ClientConfig \<Rightarrow> thrown + 's Version3Client) \<Rightarrow> (string \<Rightarrow> string)
     \<Rightarrow> ('s, unit) io" where
  "run pf connect env s =
     (case run_try pf connect env s of
        (Inr u, s1, ev) \<Rightarrow> (Inr u, s1, ev)
      | (Inl error, s1, ev) \<Rightarrow>
          if \<not> serialisable error then (Inl (json_error pf error), s1, ev)
          else if instanceof_Error error
          then (Inr (), s1, ev @ [SetFailed (error_message error)])
          else (Inr (), s1, ev))"

section \<open>Example platform and tracker\<close>

text \<open>
  A platform whose parser knows one date outside the standard format, and a tracker that
  holds four versions, two of them near matches of \<^verbatim>\<open>v1.2.0\<close>; its state counts the
  requests served. \<open>failing_client e\<close> rejects every request with \<open>e\<close>.
\<close>

definition demo_platform :: platform where
  "demo_platform =
     \<lparr>date_parse_other = (\<lambda>s. if s = ''March 5, 2024'' then Some 1709596800000 else None),
      clock = 1730641234567,
      picklist_message = (\<lambda>s. ''Invalid type: received '' @ s),
      json_error = (\<lambda>e. ErrorInstance ''TypeError'' ''Converting circular structure to JSON'')\<rparr>"

definition demo_versions :: "Version list" where
  "demo_versions =
     [\<lparr>version_id = Some ''10001'', version_name = Some ''v1.2.0-rc''\<rparr>,
      \<lparr>version_id = Some ''10002'', version_name = Some ''V1.2.0''\<rparr>,
      \<lparr>version_id = Some ''10003'', version_name = Some ''v1.2.0''\<rparr>,
      \<lparr>version_id = Some ''10004'', version_name = Some ''v1.2.0''\<rparr>]"

definition demo_client :: "nat Version3Client" where
  "demo_client =
     \<lparr>getProjectVersionsPaginated = (\<lambda>key q n. (Inr (Some demo_versions), Suc n)),
      getProject = (\<lambda>key n. (Inr ''20000'', Suc n)),
      createVersion =
        (\<lambda>p pid n. (Inr \<lparr>version_id = Some ''10005'', version_name = Some (name p)\<rparr>, Suc n)),
      updateVersion =
        (\<lambda>p i n. (Inr \<lparr>version_id = Some i, version_name = Some (name p)\<rparr>, Suc n)),
      deleteAndReplaceVersion = (\<lambda>i n. (Inr (), Suc n)),
      editIssue = (\<lambda>k v n. (Inr (), Suc n))\<rparr>"


text \<open>A tracker like the example's, except that it rejects every tagging request.\<close>

definition tag_failing_client :: "nat Version3Client" where
  "tag_failing_client =
     demo_client\<lparr>editIssue :=
       (\<lambda>k v n. (Inl (ErrorInstance ''HttpException'' ''Issue does not exist''), Suc n))\<rparr>"

text \<open>
  The raw inputs of the example, some of them padded, and the object \<^verbatim>\<open>run\<close> reads from
  them. \<open>env_of\<close> looks an input up in a list; an input that is not listed is empty.
\<close>

definition env_of :: "(string \<times> string) list \<Rightarrow> string \<Rightarrow> string" where
  "env_of xs nm = (case map_of xs nm of None \<Rightarrow> [] | Some v \<Rightarrow> v)"

definition demo_env :: "string \<Rightarrow> string" where
  "demo_env =
     env_of
       [(''email'', ''a@b.c''), (''api_token'', ''t''), (''subdomain'', ''acme''),
        (''jira_project'', '' AB''), (''release_name'', ''v1.2.0 ''),
        (''operation'', ''create_or_update''), (''tickets'', '' AB-1, AB-2 ''),
        (''dry_run'', ''false''), (''release_description'', ''d''),
        (''release_released'', ''true''), (''release_archived'', ''false'')]"

definition demo_inputs :: Inputs where
  "demo_inputs =
     \<lparr>email = ''a@b.c'', api_token = ''t'', subdomain = ''acme'', jira_project = ''AB'',
      release_name = ''v1.2.0'', operation = ''create_or_update'', tickets = ''AB-1, AB-2'',
      dry_run = False, release_description = ''d'', release_released = True,
      release_release_date = '''', release_archived = False\<rparr>"

definition unreleased_spec :: ProjectVersionUpsertParams where
  "unreleased_spec =
     \<lparr>name = ''v9'', description = Some ''d'', released = False,
      releaseDate = Some ''2024-03-05'', archived = False\<rparr>"

definition undated_spec :: ProjectVersionUpsertParams where
  "undated_spec =
     \<lparr>name = ''v1.2.0'', description = Some ''d'', released = True,
      releaseDate = None, archived = False\<rparr>"

definition malformed_spec :: ProjectVersionUpsertParams where
  "malformed_spec =
     \<lparr>name = ''v9'', description = Some ''d'', released = True,
      releaseDate = Some ''not-a-date'', archived = False\<rparr>"

section \<open>Properties of the calendar\<close>

text \<open>
  The year found by the search is the year of the time value, the day within the year
  lies in that year, and the month and date that \<open>MonthFromTime\<close> and \<open>DateFromTime\<close>
  read off name the day again: \<open>MakeDay\<close> takes them back to \<open>Day t\<close>.
\<close>

lemma year_down_le: "TimeFromYear (year_down t y) \<le> t"
proof (induction t y rule: year_down.induct)
  case (1 t y)
  then show ?case by (cases "t < TimeFromYear y") (simp_all add: year_down.simps [of t y])
qed

lemma year_up_bounds:
  "TimeFromYear y \<le> t \<Longrightarrow>
   TimeFromYear (year_up t y) \<le> t \<and> t < TimeFromYear (year_up t y + 1)"
proof (induction t y rule: year_up.induct)
  case (1 t y)
  then show ?case
    by (cases "TimeFromYear (y + 1) \<le> t") (simp_all add: year_up.simps [of t y])
qed

lemma YearFromTime_bounds:
  "TimeFromYear (YearFromTime t) \<le> t \<and> t < TimeFromYear (YearFromTime t + 1)"
  unfolding YearFromTime_def by (rule year_up_bounds) (rule year_down_le)

lemma DayFromYear_mono_nat: "DayFromYear y \<le> DayFromYear (y + int n)"
proof (induction n)
  case 0
  then show ?case by simp
next
  case (Suc n)
  have "DayFromYear (y + int (Suc n)) = DayFromYear (y + int n) + DaysInYear (y + int n)"
    using DayFromYear_step [of "y + int n"] by (simp add: add.commute add.left_commute)
  with Suc DaysInYear_cases [of "y + int n"] show ?case by auto
qed

lemma DayFromYear_mono: "y \<le> z \<Longrightarrow> DayFromYear y \<le> DayFromYear z"
  using DayFromYear_mono_nat [of y "nat (z - y)"] by simp

lemma Day_bounds: "msPerDay * Day t \<le> t \<and> t < msPerDay * Day t + msPerDay"
proof -
  have "t = msPerDay * (t div msPerDay) + t mod msPerDay" by simp
  moreover have "0 \<le> t mod msPerDay" "t mod msPerDay < msPerDay"
    by (simp_all add: msPerDay_def)
  ultimately show ?thesis unfolding Day_def by linarith
qed

lemma DayWithinYear_bounds:
  "0 \<le> DayWithinYear t \<and> DayWithinYear t < DaysInYear (YearFromTime t)"
proof -
  let ?y = "YearFromTime t"
  have b: "msPerDay * DayFromYear ?y \<le> t" "t < msPerDay * DayFromYear (?y + 1)"
    using YearFromTime_bounds [of t] by (simp_all add: TimeFromYear_def)
  have d: "msPerDay * Day t \<le> t" "t < msPerDay * Day t + msPerDay"
    using Day_bounds [of t] by simp_all
  have "msPerDay * DayFromYear ?y < msPerDay * (Day t + 1)"
    using b(1) d(2) by (simp add: algebra_simps)
  then have lo: "DayFromYear ?y < Day t + 1"
    by (simp add: msPerDay_def)
  have "msPerDay * Day t < msPerDay * DayFromYear (?y + 1)"
    using b(2) d(1) by simp
  then have hi: "Day t < DayFromYear (?y + 1)"
    by (simp add: msPerDay_def)
  show ?thesis
    unfolding DayWithinYear_def using lo hi by (simp add: DayFromYear_step)
qed

lemma leap_flag_DaysInYear: "DaysInYear y = 365 + leap_flag y"
  using DaysInYear_cases [of y] by (auto simp: leap_flag_def)

lemma leap_flag_cases: "leap_flag y = 0 \<or> leap_flag y = 1"
  by (simp add: leap_flag_def)

lemma MonthFromTime_range: "0 \<le> MonthFromTime t \<and> MonthFromTime t \<le> 11"
  by (simp add: MonthFromTime_def Let_def)

lemma MakeDay_roundtrip:
  "MakeDay (YearFromTime t) (MonthFromTime t) (DateFromTime t) = Day t"
proof -
  have r: "0 \<le> MonthFromTime t" "MonthFromTime t \<le> 11"
    using MonthFromTime_range [of t] by simp_all
  then have m: "MonthFromTime t div 12 = 0" "MonthFromTime t mod 12 = MonthFromTime t"
    by simp_all
  have "MonthStart (MonthFromTime t) (InLeapYear t) + DateFromTime t - 1 = DayWithinYear t"
    unfolding DateFromTime_def MonthStart_def Let_def
    by (simp add: MonthFromTime_def Let_def)
  then show ?thesis
    unfolding MakeDay_def Let_def m by (simp add: DayWithinYear_def InLeapYear_def)
qed

lemma DateFromTime_range:
  "1 \<le> DateFromTime t \<and> DateFromTime t \<le> DaysInMonth (YearFromTime t) (MonthFromTime t)"
proof -
  have b: "0 \<le> DayWithinYear t" "DayWithinYear t < 365 + InLeapYear t"
    using DayWithinYear_bounds [of t] leap_flag_DaysInYear [of "YearFromTime t"]
    by (simp_all add: InLeapYear_def)
  have l: "InLeapYear t = 0 \<or> InLeapYear t = 1"
    using leap_flag_cases by (simp add: InLeapYear_def)
  from l show ?thesis
  proof
    assume z: "InLeapYear t = 0"
    then have z': "leap_flag (YearFromTime t) = 0" by (simp add: InLeapYear_def)
    show ?thesis
      using b unfolding DateFromTime_def DaysInMonth_def MonthFromTime_def Let_def z z'
      by simp
  next
    assume z: "InLeapYear t = 1"
    then have z': "leap_flag (YearFromTime t) = 1" by (simp add: InLeapYear_def)
    show ?thesis
      using b unfolding DateFromTime_def DaysInMonth_def MonthFromTime_def Let_def z z'
      by simp
  qed
qed

section \<open>Formatting and parsing are inverse on calendar days\<close>

text \<open>
  For every time value in the range of a Date, the year-month-day string of its UTC day
  is in the standard format and parses to midnight UTC of the same day, which is in
  range and has the same year-month-day string.
\<close>

lemma of_char_digit_char: "d < 10 \<Longrightarrow> (of_char (digit_char d) :: nat) = 48 + d"
  by (simp add: digit_char_def)

lemma digit_val_digit_char: "d < 10 \<Longrightarrow> digit_val (digit_char d) = Some d"
  by (simp add: digit_val_def of_char_digit_char)

lemma digit_char_neq:
  assumes "d < 10"
  shows "digit_char d \<noteq> CHR ''T''" "digit_char d \<noteq> CHR ''-''" "digit_char d \<noteq> CHR ''+''"
proof -
  have e: "(of_char (digit_char d) :: nat) = 48 + d"
    using assms by (rule of_char_digit_char)
  show "digit_char d \<noteq> CHR ''T''"
  proof
    assume "digit_char d = CHR ''T''"
    with e assms show False by simp
  qed
  show "digit_char d \<noteq> CHR ''-''"
  proof
    assume "digit_char d = CHR ''-''"
    with e assms show False by simp
  qed
  show "digit_char d \<noteq> CHR ''+''"
  proof
    assume "digit_char d = CHR ''+''"
    with e assms show False by simp
  qed
qed

lemma length_pad: "length (pad k n) = k"
  by (induction k arbitrary: n) simp_all

lemma pad_no_T: "CHR ''T'' \<notin> set (pad k n)"
proof (induction k arbitrary: n)
  case 0
  then show ?case by simp
next
  case (Suc k)
  have "digit_char (n mod 10) \<noteq> CHR ''T''"
    by (rule digit_char_neq) simp
  with Suc show ?case by auto
qed

lemma digits_acc_append:
  "digits_acc a (xs @ ys) =
     (case digits_acc a xs of None \<Rightarrow> None | Some v \<Rightarrow> digits_acc v ys)"
  by (induction xs arbitrary: a) (simp_all split: option.splits)

lemma digits_acc_pad: "n < 10 ^ k \<Longrightarrow> digits_acc a (pad k n) = Some (a * 10 ^ k + n)"
proof (induction k arbitrary: n)
  case 0
  then show ?case by simp
next
  case (Suc k)
  then have "n div 10 < 10 ^ k"
    by (simp add: less_mult_imp_div_less mult.commute)
  then have "digits_acc a (pad k (n div 10)) = Some (a * 10 ^ k + n div 10)"
    by (rule Suc.IH)
  then show ?case
    by (simp add: digits_acc_append digit_val_digit_char algebra_simps)
qed

lemma split_on_first:
  "c \<notin> set xs \<Longrightarrow> split_on c (xs @ c # ys) = xs # split_on c ys"
  by (induction xs) auto

lemma TimeFromYear_mono: "y \<le> z \<Longrightarrow> TimeFromYear y \<le> TimeFromYear z"
  using DayFromYear_mono [of y z] by (simp add: TimeFromYear_def msPerDay_def)

lemma YearFromTime_unique:
  assumes "TimeFromYear y \<le> t" and "t < TimeFromYear (y + 1)"
  shows "YearFromTime t = y"
proof -
  let ?z = "YearFromTime t"
  have b: "TimeFromYear ?z \<le> t" "t < TimeFromYear (?z + 1)"
    using YearFromTime_bounds [of t] by simp_all
  have "\<not> ?z < y"
  proof
    assume "?z < y"
    then have "TimeFromYear (?z + 1) \<le> TimeFromYear y" by (intro TimeFromYear_mono) simp
    with assms(1) b(2) show False by simp
  qed
  moreover have "\<not> y < ?z"
  proof
    assume "y < ?z"
    then have "TimeFromYear (y + 1) \<le> TimeFromYear ?z" by (intro TimeFromYear_mono) simp
    with assms(2) b(1) show False by simp
  qed
  ultimately show ?thesis by simp
qed

lemma YearFromTime_range:
  assumes "\<bar>t\<bar> \<le> 8640000000000000"
  shows "- 1000000 < YearFromTime t \<and> YearFromTime t < 1000000"
proof -
  let ?y = "YearFromTime t"
  have b: "TimeFromYear ?y \<le> t" "t < TimeFromYear (?y + 1)"
    using YearFromTime_bounds [of t] by simp_all
  have "\<not> 1000000 \<le> ?y"
  proof
    assume "1000000 \<le> ?y"
    then have "TimeFromYear 1000000 \<le> TimeFromYear ?y" by (rule TimeFromYear_mono)
    moreover have "8640000000000000 < TimeFromYear 1000000"
      by (simp add: TimeFromYear_def DayFromYear_def msPerDay_def)
    ultimately show False using b(1) assms by simp
  qed
  moreover have "\<not> ?y \<le> - 1000000"
  proof
    assume "?y \<le> - 1000000"
    then have "TimeFromYear (?y + 1) \<le> TimeFromYear (- 999999)"
      by (intro TimeFromYear_mono) simp
    moreover have "TimeFromYear (- 999999) < - 8640000000000000"
      by (simp add: TimeFromYear_def DayFromYear_def msPerDay_def)
    ultimately show False using b(2) assms by simp
  qed
  ultimately show ?thesis by simp
qed

lemma pad_two:
  assumes "n < 100"
  shows "\<exists>a b. pad 2 n = [a, b] \<and> digits_acc 0 [a, b] = Some n"
proof -
  have "digits_acc 0 (pad 2 n) = Some (0 * 10 ^ 2 + n)"
    by (rule digits_acc_pad) (use assms in simp)
  moreover have "pad 2 n = [digit_char (n div 10 mod 10), digit_char (n mod 10)]"
    by (simp add: numeral_2_eq_2)
  ultimately show ?thesis by simp
qed

lemma parse_month_day_pad:
  assumes "1 \<le> m" "m \<le> 12" "1 \<le> d" "int d \<le> DaysInMonth year (int m - 1)"
  shows "parse_month_day year (''-'' @ pad 2 m @ ''-'' @ pad 2 d)
           = Some (msPerDay * MakeDay year (int m - 1) (int d))"
proof -
  have "DaysInMonth year (int m - 1) \<le> 31"
    using leap_flag_cases [of year] by (auto simp: DaysInMonth_def)
  with assms have lt: "m < 100" "d < 100" by simp_all
  obtain m1 m2 where pm: "pad 2 m = [m1, m2]" "digits_acc 0 [m1, m2] = Some m"
    using pad_two [OF lt(1)] by blast
  obtain d1 d2 where pd: "pad 2 d = [d1, d2]" "digits_acc 0 [d1, d2] = Some d"
    using pad_two [OF lt(2)] by blast
  have "parse_month_day year [CHR ''-'', m1, m2, CHR ''-'', d1, d2] = ymd_time year m d"
    unfolding parse_month_day_def by (simp add: pm(2) pd(2) del: digits_acc.simps)
  moreover have "ymd_time year m d = Some (msPerDay * MakeDay year (int m - 1) (int d))"
    using assms by (simp add: ymd_time_def)
  ultimately show ?thesis by (simp add: pm(1) pd(1) del: pad.simps)
qed

lemma hd_pad_Suc: "\<exists>c cs. pad (Suc k) n = c # cs \<and> c \<noteq> CHR ''+'' \<and> c \<noteq> CHR ''-''"
proof (induction k arbitrary: n)
  case 0
  have "digit_char (n mod 10) \<noteq> CHR ''+''" "digit_char (n mod 10) \<noteq> CHR ''-''"
    by (rule digit_char_neq, simp)+
  then show ?case by simp
next
  case (Suc k)
  from Suc [of "n div 10"] obtain c cs where
    "pad (Suc k) (n div 10) = c # cs" "c \<noteq> CHR ''+''" "c \<noteq> CHR ''-''" by blast
  then show ?case by simp
qed

lemma hd_pad_pos:
  assumes "0 < k"
  shows "\<exists>c cs. pad k n = c # cs \<and> c \<noteq> CHR ''+'' \<and> c \<noteq> CHR ''-''"
proof -
  from assms obtain j where "k = Suc j" by (cases k) simp_all
  then show ?thesis using hd_pad_Suc [of j n] by simp
qed

lemma leading_number_pad:
  assumes "n < 10 ^ k"
  shows "leading_number k (pad k n @ rest) = Some (n, rest)"
proof -
  have "digits_acc 0 (pad k n) = Some (0 * 10 ^ k + n)"
    using assms by (rule digits_acc_pad)
  then show ?thesis
    by (simp add: leading_number_def length_pad)
qed

lemma parse_iso_date_four:
  assumes "n < 10 ^ 4"
  shows "parse_iso_date (pad 4 n @ rest) = parse_month_day (int n) rest"
proof -
  obtain c cs where p: "pad 4 n = c # cs" "c \<noteq> CHR ''+''" "c \<noteq> CHR ''-''"
    using hd_pad_pos [of 4 n] by auto
  have l: "leading_number 4 (pad 4 n @ rest) = Some (n, rest)"
    using assms by (rule leading_number_pad)
  have "parse_iso_date (c # (cs @ rest)) =
          (case leading_number 4 (c # (cs @ rest)) of
             None \<Rightarrow> None
           | Some (y, rest) \<Rightarrow> parse_month_day (int y) rest)"
    unfolding parse_iso_date_def by (simp only: list.case p(2,3) if_False simp_thms)
  also have "c # (cs @ rest) = pad 4 n @ rest"
    by (simp only: p(1) append_Cons)
  finally show ?thesis
    by (simp only: l option.case prod.case)
qed

lemma parse_iso_date_six:
  assumes "n < 10 ^ 6" "c = CHR ''+'' \<or> c = CHR ''-''" "c = CHR ''-'' \<longrightarrow> n \<noteq> 0"
  shows "parse_iso_date (c # pad 6 n @ rest)
           = parse_month_day (if c = CHR ''-'' then - int n else int n) rest"
proof -
  have l: "leading_number 6 (pad 6 n @ rest) = Some (n, rest)"
    using assms(1) by (rule leading_number_pad)
  have "parse_iso_date (c # (pad 6 n @ rest)) =
     (case leading_number 6 (pad 6 n @ rest) of
               None \<Rightarrow> None
             | Some (y, rest) \<Rightarrow>
                 if c = CHR ''-'' \<and> y = 0 then None
                 else parse_month_day (if c = CHR ''-'' then - int y else int y) rest)"
    unfolding parse_iso_date_def by (simp only: list.case assms(2) if_True)
  also have "\<dots> = parse_month_day (if c = CHR ''-'' then - int n else int n) rest"
    using assms(3) by (simp only: l option.case prod.case) auto
  finally show ?thesis by (simp only: append_Cons)
qed

lemma parse_iso_date_year_string:
  assumes "- 1000000 < y" "y < 1000000"
  shows "parse_iso_date (year_string y @ rest) = parse_month_day y rest"
proof (cases "0 \<le> y \<and> y \<le> 9999")
  case True
  then have ys: "year_string y = pad 4 (nat y)" by (simp add: year_string_def)
  have "nat y < 10 ^ 4" using True by auto
  then have "parse_iso_date (pad 4 (nat y) @ rest) = parse_month_day (int (nat y)) rest"
    by (rule parse_iso_date_four)
  then show ?thesis using True by (simp only: ys) simp
next
  case False
  let ?c = "if y < 0 then CHR ''-'' else CHR ''+''"
  have ys: "year_string y = ?c # pad 6 (nat \<bar>y\<bar>)"
    using False by (auto simp add: year_string_def)
  have "parse_iso_date (?c # pad 6 (nat \<bar>y\<bar>) @ rest)
       = parse_month_day (if ?c = CHR ''-'' then - int (nat \<bar>y\<bar>) else int (nat \<bar>y\<bar>)) rest"
  proof (rule parse_iso_date_six)
    show "nat \<bar>y\<bar> < 10 ^ 6" using assms by simp
    show "?c = CHR ''+'' \<or> ?c = CHR ''-''" by simp
    show "?c = CHR ''-'' \<longrightarrow> nat \<bar>y\<bar> \<noteq> 0" using False by auto
  qed
  moreover have "(if ?c = CHR ''-'' then - int (nat \<bar>y\<bar>) else int (nat \<bar>y\<bar>)) = y"
    by simp
  ultimately show ?thesis by (simp only: ys append_Cons)
qed

lemma parse_iso_date_utc_day_string:
  assumes "\<bar>t\<bar> \<le> 8640000000000000"
  shows "parse_iso_date (utc_day_string t) = Some (msPerDay * Day t)"
proof -
  let ?y = "YearFromTime t" and ?m = "nat (MonthFromTime t + 1)" and ?d = "nat (DateFromTime t)"
  have yr: "- 1000000 < ?y" "?y < 1000000"
    using YearFromTime_range [OF assms] by simp_all
  have mr: "0 \<le> MonthFromTime t" "MonthFromTime t \<le> 11"
    using MonthFromTime_range [of t] by simp_all
  have dr: "1 \<le> DateFromTime t" "DateFromTime t \<le> DaysInMonth ?y (MonthFromTime t)"
    using DateFromTime_range [of t] by simp_all
  have "parse_iso_date (utc_day_string t)
          = parse_month_day ?y (''-'' @ pad 2 ?m @ ''-'' @ pad 2 ?d)"
    unfolding utc_day_string_def by (rule parse_iso_date_year_string [OF yr])
  also have "\<dots> = Some (msPerDay * MakeDay ?y (int ?m - 1) (int ?d))"
    by (rule parse_month_day_pad) (use mr dr in simp_all)
  also have "int ?m - 1 = MonthFromTime t" using mr by simp
  also have "int ?d = DateFromTime t" using dr by simp
  also have "MakeDay ?y (MonthFromTime t) (DateFromTime t) = Day t"
    by (rule MakeDay_roundtrip)
  finally show ?thesis .
qed

lemma Day_midnight: "Day (msPerDay * Day t) = Day t"
  by (simp add: Day_def msPerDay_def)

lemma YearFromTime_midnight: "YearFromTime (msPerDay * Day t) = YearFromTime t"
proof (rule YearFromTime_unique)
  let ?y = "YearFromTime t"
  have w: "0 \<le> DayWithinYear t" using DayWithinYear_bounds [of t] by simp
  then show "TimeFromYear ?y \<le> msPerDay * Day t"
    by (simp add: DayWithinYear_def TimeFromYear_def msPerDay_def)
  have "msPerDay * Day t \<le> t" using Day_bounds [of t] by simp
  also have "t < TimeFromYear (?y + 1)" using YearFromTime_bounds [of t] by simp
  finally show "msPerDay * Day t < TimeFromYear (?y + 1)" .
qed

lemma utc_day_string_midnight: "utc_day_string (msPerDay * Day t) = utc_day_string t"
proof -
  have w: "DayWithinYear (msPerDay * Day t) = DayWithinYear t"
    by (simp add: DayWithinYear_def YearFromTime_midnight Day_midnight)
  have l: "InLeapYear (msPerDay * Day t) = InLeapYear t"
    by (simp add: InLeapYear_def YearFromTime_midnight)
  have m: "MonthFromTime (msPerDay * Day t) = MonthFromTime t"
    by (simp add: MonthFromTime_def w l)
  have d: "DateFromTime (msPerDay * Day t) = DateFromTime t"
    by (simp add: DateFromTime_def w l m)
  show ?thesis
    by (simp add: utc_day_string_def YearFromTime_midnight m d)
qed

lemma midnight_in_range:
  assumes "\<bar>t\<bar> \<le> 8640000000000000"
  shows "\<bar>msPerDay * Day t\<bar> \<le> 8640000000000000"
proof -
  have hi: "msPerDay * Day t \<le> t" using Day_bounds [of t] by simp
  have "- 100000000 \<le> Day t"
  proof -
    have "(- 8640000000000000) div msPerDay \<le> t div msPerDay"
      by (rule zdiv_mono1) (use assms in \<open>simp_all add: msPerDay_def\<close>)
    then show ?thesis by (simp add: Day_def msPerDay_def)
  qed
  then have "- 8640000000000000 \<le> msPerDay * Day t" by (simp add: msPerDay_def)
  with hi assms show ?thesis by simp
qed

lemma T_notin_year_string: "CHR ''T'' \<notin> set (year_string y)"
  using pad_no_T by (simp add: year_string_def)

lemma T_notin_utc_day_string: "CHR ''T'' \<notin> set (utc_day_string t)"
  using pad_no_T T_notin_year_string by (simp add: utc_day_string_def del: pad.simps)

lemma split_toISOString:
  "\<exists>rest. split_on CHR ''T'' (toISOString t) = utc_day_string t # rest"
proof -
  have "toISOString t = utc_day_string t @ CHR ''T'' #
      (pad 2 (nat (HourFromTime t)) @ '':''
       @ pad 2 (nat (MinFromTime t)) @ '':'' @ pad 2 (nat (SecFromTime t)) @ ''.''
       @ pad 3 (nat (msFromTime t)) @ ''Z'')"
    by (simp add: toISOString_def utc_day_string_def del: pad.simps)
  then show ?thesis
    using split_on_first [OF T_notin_utc_day_string] by simp
qed

section \<open>Date normalisation\<close>

text \<open>
  \<^verbatim>\<open>date.toISOString().split("T")[0]\<close> of a valid date is the year-month-day string
  of its UTC day, and reformatting such a string returns it.
\<close>

lemma iso_date_part_Some: "iso_date_part (Some t) = Inr (Some (utc_day_string t))"
proof -
  obtain rest where "split_on CHR ''T'' (toISOString t) = utc_day_string t # rest"
    using split_toISOString [of t] by blast
  then show ?thesis
    by (simp add: iso_date_part_def Date_toISOString_def first_element_def)
qed

lemma iso_date_part_None:
  "iso_date_part None = Inl (ErrorInstance ''RangeError'' ''Invalid time value'')"
  by (simp add: iso_date_part_def Date_toISOString_def)

lemma new_Date_in_range: "new_Date other s = Some t \<Longrightarrow> in_range t"
  by (auto simp: new_Date_def TimeClip_def in_range_def split: option.splits if_splits)

lemma new_Date_utc_day_string:
  assumes "in_range t"
  shows "new_Date other (utc_day_string t) = Some (msPerDay * Day t)"
proof -
  have r: "\<bar>t\<bar> \<le> 8640000000000000" using assms by (simp add: in_range_def)
  have "parse_iso_date (utc_day_string t) = Some (msPerDay * Day t)"
    using r by (rule parse_iso_date_utc_day_string)
  moreover have "TimeClip (msPerDay * Day t) = Some (msPerDay * Day t)"
    using midnight_in_range [OF r] by (simp add: TimeClip_def)
  ultimately show ?thesis by (simp add: new_Date_def Date_parse_def)
qed

lemma normalize_utc_day_string:
  assumes "in_range t"
  shows "iso_date_part (new_Date other (utc_day_string t)) = Inr (Some (utc_day_string t))"
  by (simp add: new_Date_utc_day_string [OF assms] iso_date_part_Some utc_day_string_midnight)

lemma utc_day_string_nonempty: "utc_day_string t \<noteq> []"
  by (simp add: utc_day_string_def)

lemma reformat_utc_day_string:
  assumes "in_range t"
  shows "reformat_if_set pf (Some (utc_day_string t)) = Inr (Some (utc_day_string t))"
    and "reformat_or_undefined pf (Some (utc_day_string t)) = Inr (Some (utc_day_string t))"
  by (simp_all add: reformat_if_set_def reformat_or_undefined_def utc_day_string_nonempty
      normalize_utc_day_string [OF assms])

lemma reformat_or_undefined_cases:
  assumes "reformat_or_undefined pf x = Inr d"
  shows "d = None \<or> (\<exists>t. in_range t \<and> d = Some (utc_day_string t))"
proof (cases "truthy x")
  case False
  then have "reformat_or_undefined pf x = Inr None"
    by (auto simp: reformat_or_undefined_def truthy_def split: option.splits)
  with assms show ?thesis by simp
next
  case True
  then obtain s where x: "x = Some s" "s \<noteq> []"
    by (auto simp: truthy_def split: option.splits)
  then have r: "reformat_or_undefined pf x = iso_date_part (new_Date (date_parse_other pf) s)"
    by (simp add: reformat_or_undefined_def)
  show ?thesis
  proof (cases "new_Date (date_parse_other pf) s")
    case None
    with r assms show ?thesis by (simp add: iso_date_part_None)
  next
    case (Some t)
    then have "in_range t" by (rule new_Date_in_range)
    moreover have "d = Some (utc_day_string t)"
      using r assms Some by (simp add: iso_date_part_Some)
    ultimately show ?thesis by blast
  qed
qed

section \<open>What the functions of jira.ts do\<close>

text \<open>
  \<open>prepareUpsertParams\<close> by cases, and each function of \<^verbatim>\<open>jira.ts\<close> written out as
  cases on what the tracker answers.
\<close>

lemma sent_payloads_append: "sent_payloads (a @ b) = sent_payloads a @ sent_payloads b"
  by (induction a rule: sent_payloads.induct) simp_all

lemma requests_append: "requests (a @ b) = requests a @ requests b"
  by (induction a rule: requests.induct) simp_all

lemma tagging_requests_append:
  "tagging_requests (a @ b) = tagging_requests a @ tagging_requests b"
  by (induction a rule: tagging_requests.induct) simp_all


lemma prepare_not_released:
  "\<not> released p \<Longrightarrow> prepareUpsertParams pf p = Inr (p\<lparr>releaseDate := None\<rparr>)"
  by (simp add: prepareUpsertParams_def reformat_if_set_def reformat_or_undefined_def)

lemma prepare_released_no_date:
  assumes "released p" "\<not> truthy (releaseDate p)"
  shows "prepareUpsertParams pf p =
           (if in_range (clock pf)
            then Inr (p\<lparr>releaseDate := Some (utc_day_string (clock pf))\<rparr>)
            else Inl (ErrorInstance ''RangeError'' ''Invalid time value''))"
proof (cases "in_range (clock pf)")
  case True
  then have "iso_date_part (TimeClip (clock pf)) = Inr (Some (utc_day_string (clock pf)))"
    by (simp add: TimeClip_def in_range_def iso_date_part_Some)
  then show ?thesis
    using assms True by (simp add: prepareUpsertParams_def reformat_utc_day_string)
next
  case False
  then have "iso_date_part (TimeClip (clock pf))
               = Inl (ErrorInstance ''RangeError'' ''Invalid time value'')"
    by (simp add: TimeClip_def in_range_def iso_date_part_None)
  then show ?thesis
    using assms False by (simp add: prepareUpsertParams_def)
qed

lemma prepare_released_date:
  assumes "released p" "in_range t" "releaseDate p = Some (utc_day_string t)"
  shows "prepareUpsertParams pf p = Inr p"
  using assms
  by (simp add: prepareUpsertParams_def truthy_def utc_day_string_nonempty
      reformat_utc_day_string)

lemma lookup_result:
  "getProjectVersionByName client key nm s =
     (case getProjectVersionsPaginated client key nm s of
        (Inl e, s1) \<Rightarrow>
          (Inl e, s1, [Info (''Getting version '' @ nm @ ''...''),
                       Request (GetProjectVersionsPaginated key nm), Rejected e])
      | (Inr page, s1) \<Rightarrow>
          (Inr (case page of None \<Rightarrow> None
                | Some vs \<Rightarrow> find (\<lambda>v. version_name v = Some nm) vs),
           s1, [Info (''Getting version '' @ nm @ ''...''),
                Request (GetProjectVersionsPaginated key nm)]))"
  by (simp add: getProjectVersionByName_def io_bind_def core_info_def await_request_def
      io_return_def split: prod.splits sum.splits)

lemma update_result:
  "updateProjectVersion pf client i p s =
     (case prepareUpsertParams pf p of
        Inl e \<Rightarrow> (Inl e, s, [])
      | Inr q \<Rightarrow>
          (case updateVersion client q i s of
             (Inl e, s1) \<Rightarrow>
               (Inl e, s1, [Info (''Updating project version '' @ name q @ ''...''),
                            Request (UpdateVersion q i), Rejected e])
           | (Inr v, s1) \<Rightarrow>
               (Inr v, s1, [Info (''Updating project version '' @ name q @ ''...''),
                            Request (UpdateVersion q i)])))"
  by (simp add: updateProjectVersion_def io_bind_def core_info_def await_request_def
      io_lift_def split: prod.splits sum.splits)

lemma create_result:
  "createProjectVersion pf client key p s =
     (case getProject client key s of
        (Inl e, s1) \<Rightarrow> (Inl e, s1, [Request (GetProject key), Rejected e])
      | (Inr pid, s1) \<Rightarrow>
          (case prepareUpsertParams pf p of
             Inl e \<Rightarrow> (Inl e, s1, [Request (GetProject key)])
           | Inr q \<Rightarrow>
               (case createVersion client q pid s1 of
                  (Inl e, s2) \<Rightarrow>
                    (Inl e, s2, [Request (GetProject key),
                                 Info (''Creating project version '' @ name q @ ''...''),
                                 Request (CreateVersion q pid), Rejected e])
                | (Inr v, s2) \<Rightarrow>
                    (Inr v, s2, [Request (GetProject key),
                                 Info (''Creating project version '' @ name q @ ''...''),
                                 Request (CreateVersion q pid)]))))"
  by (simp add: createProjectVersion_def getProjectId_def io_bind_def core_info_def
      await_request_def io_lift_def split: prod.splits sum.splits)

lemma upsert_result:
  "upsertProjectVersion pf client key params s =
     (case reformat_or_undefined pf (releaseDate params) of
        Inl e \<Rightarrow> (Inl e, s, [])
      | Inr d \<Rightarrow>
          (case getProjectVersionByName client key (name params) s of
             (Inl e, s1, ev1) \<Rightarrow> (Inl e, s1, ev1)
           | (Inr version, s1, ev1) \<Rightarrow>
               (case (case truthy_id version of
                        Some i \<Rightarrow> updateProjectVersion pf client i (params\<lparr>releaseDate := d\<rparr>) s1
                      | None \<Rightarrow> createProjectVersion pf client key (params\<lparr>releaseDate := d\<rparr>) s1) of
                  (r, s2, ev2) \<Rightarrow> (r, s2, ev1 @ ev2))))"
  by (simp add: upsertProjectVersion_def io_bind_def io_lift_def
      split: prod.splits sum.splits option.splits)

lemma lookup_no_payload:
  "sent_payloads (snd (snd (getProjectVersionByName client key nm s))) = []"
  by (simp add: lookup_result split: prod.splits sum.splits)

lemma update_payloads:
  "p \<in> set (sent_payloads (snd (snd (updateProjectVersion pf client i q s))))
     \<Longrightarrow> prepareUpsertParams pf q = Inr p"
  by (auto simp: update_result split: prod.splits sum.splits)

lemma create_payloads:
  "p \<in> set (sent_payloads (snd (snd (createProjectVersion pf client key q s))))
     \<Longrightarrow> prepareUpsertParams pf q = Inr p"
  by (auto simp: create_result split: prod.splits sum.splits)

lemma upsert_payloads:
  assumes "p \<in> set (sent_payloads (snd (snd (upsertProjectVersion pf client key params s))))"
  shows "\<exists>d. reformat_or_undefined pf (releaseDate params) = Inr d
             \<and> prepareUpsertParams pf (params\<lparr>releaseDate := d\<rparr>) = Inr p"
proof (cases "reformat_or_undefined pf (releaseDate params)")
  case (Inl e)
  with assms show ?thesis by (simp add: upsert_result)
next
  case (Inr d)
  obtain r s1 ev1 where l: "getProjectVersionByName client key (name params) s = (r, s1, ev1)"
    by (cases "getProjectVersionByName client key (name params) s") auto
  have n: "sent_payloads ev1 = []"
    using lookup_no_payload [of client key "name params" s] l by simp
  show ?thesis
  proof (cases r)
    case (Inl e)
    with assms Inr l n show ?thesis by (simp add: upsert_result)
  next
    case v: (Inr version)
    show ?thesis
    proof (cases "truthy_id version")
      case None
      obtain r2 s2 ev2 where
        c: "createProjectVersion pf client key (params\<lparr>releaseDate := d\<rparr>) s1 = (r2, s2, ev2)"
        by (cases "createProjectVersion pf client key (params\<lparr>releaseDate := d\<rparr>) s1") auto
      from assms have "p \<in> set (sent_payloads ev2)"
        using Inr l v None c n by (simp add: upsert_result sent_payloads_append)
      then have "prepareUpsertParams pf (params\<lparr>releaseDate := d\<rparr>) = Inr p"
        using create_payloads [of p pf client key "params\<lparr>releaseDate := d\<rparr>" s1] c by simp
      with Inr show ?thesis by blast
    next
      case (Some i)
      obtain r2 s2 ev2 where
        c: "updateProjectVersion pf client i (params\<lparr>releaseDate := d\<rparr>) s1 = (r2, s2, ev2)"
        by (cases "updateProjectVersion pf client i (params\<lparr>releaseDate := d\<rparr>) s1") auto
      from assms have "p \<in> set (sent_payloads ev2)"
        using Inr l v Some c n by (simp add: upsert_result sent_payloads_append)
      then have "prepareUpsertParams pf (params\<lparr>releaseDate := d\<rparr>) = Inr p"
        using update_payloads [of p pf client i "params\<lparr>releaseDate := d\<rparr>" s1] c by simp
      with Inr show ?thesis by blast
    qed
  qed
qed


lemma lookup_events:
  assumes "getProjectVersionByName client key nm s = (r, s1, ev1)"
  shows "sent_payloads ev1 = []" "requests ev1 = [GetProjectVersionsPaginated key nm]"
  using assms by (auto simp: lookup_result split: prod.splits sum.splits)

lemma upsert_update_path:
  assumes "reformat_or_undefined pf (releaseDate params) = Inr d"
    "getProjectVersionByName client key (name params) s = (Inr version, s1, ev1)"
    "truthy_id version = Some i"
    "prepareUpsertParams pf (params\<lparr>releaseDate := d\<rparr>) = Inr q"
  shows "snd (snd (upsertProjectVersion pf client key params s))
           = ev1 @ [Info (''Updating project version '' @ name q @ ''...''),
                    Request (UpdateVersion q i)]
               @ (case fst (updateVersion client q i s1) of
                    Inl e \<Rightarrow> [Rejected e] | Inr v \<Rightarrow> [])"
  using assms
  by (simp add: upsert_result update_result split: prod.splits sum.splits)

lemma upsert_create_path:
  assumes "reformat_or_undefined pf (releaseDate params) = Inr d"
    "getProjectVersionByName client key (name params) s = (Inr version, s1, ev1)"
    "truthy_id version = None"
    "getProject client key s1 = (Inr pid, s2)"
    "prepareUpsertParams pf (params\<lparr>releaseDate := d\<rparr>) = Inr q"
  shows "snd (snd (upsertProjectVersion pf client key params s))
           = ev1 @ [Request (GetProject key),
                    Info (''Creating project version '' @ name q @ ''...''),
                    Request (CreateVersion q pid)]
               @ (case fst (createVersion client q pid s2) of
                    Inl e \<Rightarrow> [Rejected e] | Inr v \<Rightarrow> [])"
  using assms
  by (simp add: upsert_result create_result split: prod.splits sum.splits)

lemma upsert_update_sends:
  assumes "reformat_or_undefined pf (releaseDate params) = Inr d"
    "getProjectVersionByName client key (name params) s = (Inr version, s1, ev1)"
    "truthy_id version = Some i"
    "prepareUpsertParams pf (params\<lparr>releaseDate := d\<rparr>) = Inr q"
  shows "sent_payloads (snd (snd (upsertProjectVersion pf client key params s))) = [q]
         \<and> requests (snd (snd (upsertProjectVersion pf client key params s)))
             = [GetProjectVersionsPaginated key (name params), UpdateVersion q i]"
  using lookup_events [OF assms(2)]
  by (simp add: upsert_update_path [OF assms] sent_payloads_append requests_append
      split: sum.splits)

lemma upsert_create_sends:
  assumes "reformat_or_undefined pf (releaseDate params) = Inr d"
    "getProjectVersionByName client key (name params) s = (Inr version, s1, ev1)"
    "truthy_id version = None"
    "getProject client key s1 = (Inr pid, s2)"
    "prepareUpsertParams pf (params\<lparr>releaseDate := d\<rparr>) = Inr q"
  shows "sent_payloads (snd (snd (upsertProjectVersion pf client key params s))) = [q]
         \<and> requests (snd (snd (upsertProjectVersion pf client key params s)))
             = [GetProjectVersionsPaginated key (name params), GetProject key,
                CreateVersion q pid]"
  using lookup_events [OF assms(2)]
  by (simp add: upsert_create_path [OF assms] sent_payloads_append requests_append
      split: sum.splits)

lemma delete_result:
  "deleteProjectVersionByName client key nm s =
     (case getProjectVersionByName client key nm s of
        (Inl e, s1, ev1) \<Rightarrow> (Inl e, s1, ev1)
      | (Inr version, s1, ev1) \<Rightarrow>
          (case truthy_id version of
             None \<Rightarrow> (Inl (ErrorInstance ''Error'' (''Version '' @ nm @ '' not found'')), s1, ev1)
           | Some i \<Rightarrow>
               (case deleteAndReplaceVersion client i s1 of
                  (Inl e, s2) \<Rightarrow>
                    (Inl e, s2, ev1 @ [Info (''Deleting version '' @ nm @ ''...''),
                                       Request (DeleteAndReplaceVersion i), Rejected e])
                | (Inr u, s2) \<Rightarrow>
                    (Inr u, s2, ev1 @ [Info (''Deleting version '' @ nm @ ''...''),
                                       Request (DeleteAndReplaceVersion i)]))))"
  by (simp add: deleteProjectVersionByName_def io_bind_def io_throw_def core_info_def
      await_request_def split: prod.splits sum.splits option.splits)

section \<open>Rejections propagate to the top\<close>




















lemma run_state:
  "fst (snd (run pf connect env s)) = fst (snd (run_try pf connect env s))"
  by (simp add: run_def split: prod.splits sum.splits)

lemma run_events:
  "snd (snd (run pf connect env s)) =
     snd (snd (run_try pf connect env s))
       @ (case fst (run_try pf connect env s) of
            Inl e \<Rightarrow> if serialisable e \<and> instanceof_Error e
                     then [SetFailed (error_message e)] else []
          | Inr u \<Rightarrow> [])"
  by (simp add: run_def split: prod.splits sum.splits)



text \<open>What reading the inputs returns and what it throws.\<close>

lemma then_read_Inr: "then_read r f = Inr b \<longleftrightarrow> (\<exists>a. r = Inr a \<and> f a = Inr b)"
  by (cases r) (simp_all add: then_read_def)


lemma getInput_optional: "getInput env nm False = Inr (trim (env nm))"
  by (simp add: getInput_def)

lemma getInput_Inr: "getInput env nm required = Inr v \<Longrightarrow> v = trim (env nm)"
  by (simp add: getInput_def Let_def split: if_splits)



lemma read_inputs_strings:
  assumes "read_inputs env = Inr inputs"
  shows "email inputs = trim (env ''email'')"
    "api_token inputs = trim (env ''api_token'')"
    "subdomain inputs = trim (env ''subdomain'')"
    "jira_project inputs = trim (env ''jira_project'')"
    "release_name inputs = trim (env ''release_name'')"
    "operation inputs = trim (env ''operation'')"
    "tickets inputs = trim (env ''tickets'')"
    "release_description inputs = trim (env ''release_description'')"
    "release_release_date inputs = trim (env ''release_release_date'')"
  using assms
  by (auto simp: read_inputs_def then_read_Inr dest: getInput_Inr)





lemma InputSchema_returns: "InputSchema pf inputs = Inr input \<Longrightarrow> input = inputs"
  by (auto simp: InputSchema_def Let_def split: if_splits)

section \<open>Tagging after an upsert\<close>

text \<open>
  An upsert issues no tagging request; \<open>run\<close> after an upsert that returned or threw.
\<close>

lemma lookup_no_tagging:
  "tagging_requests (snd (snd (getProjectVersionByName client key nm s))) = []"
  by (simp add: lookup_result split: prod.splits sum.splits)

lemma update_no_tagging:
  "tagging_requests (snd (snd (updateProjectVersion pf client i q s))) = []"
  by (simp add: update_result split: prod.splits sum.splits)

lemma create_no_tagging:
  "tagging_requests (snd (snd (createProjectVersion pf client key q s))) = []"
  by (simp add: create_result split: prod.splits sum.splits)

lemma upsert_no_tagging:
  "tagging_requests (snd (snd (upsertProjectVersion pf client key params s))) = []"
proof (cases "reformat_or_undefined pf (releaseDate params)")
  case (Inl e)
  then show ?thesis by (simp add: upsert_result)
next
  case (Inr d)
  obtain r s1 ev1 where l: "getProjectVersionByName client key (name params) s = (r, s1, ev1)"
    by (cases "getProjectVersionByName client key (name params) s") auto
  have n: "tagging_requests ev1 = []"
    using lookup_no_tagging [of client key "name params" s] l by simp
  show ?thesis
  proof (cases r)
    case (Inl e)
    with Inr l n show ?thesis by (simp add: upsert_result)
  next
    case v: (Inr version)
    show ?thesis
    proof (cases "truthy_id version")
      case None
      obtain r2 s2 ev2 where
        c: "createProjectVersion pf client key (params\<lparr>releaseDate := d\<rparr>) s1 = (r2, s2, ev2)"
        by (cases "createProjectVersion pf client key (params\<lparr>releaseDate := d\<rparr>) s1") auto
      have "tagging_requests ev2 = []"
        using create_no_tagging [of pf client key "params\<lparr>releaseDate := d\<rparr>" s1] c by simp
      with Inr l v None c n show ?thesis
        by (simp add: upsert_result tagging_requests_append)
    next
      case (Some i)
      obtain r2 s2 ev2 where
        c: "updateProjectVersion pf client i (params\<lparr>releaseDate := d\<rparr>) s1 = (r2, s2, ev2)"
        by (cases "updateProjectVersion pf client i (params\<lparr>releaseDate := d\<rparr>) s1") auto
      have "tagging_requests ev2 = []"
        using update_no_tagging [of pf client i "params\<lparr>releaseDate := d\<rparr>" s1] c by simp
      with Inr l v Some c n show ?thesis
        by (simp add: upsert_result tagging_requests_append)
    qed
  qed
qed

lemma split_two_tickets: "map trim (split_on CHR '','' ''AB-1, AB-2'') = [''AB-1'', ''AB-2'']"
  by (simp add: trim_def is_ws_def)

lemma tagging_two:
  "tagging_requests (snd (snd (setVersionOnIssues client vid [k1, k2] s)))
     = (case fst (editIssue client k1 vid s) of
          Inl e \<Rightarrow> [(k1, vid)]
        | Inr u \<Rightarrow> [(k1, vid), (k2, vid)])"
  by (simp add: io_bind_def await_request_def io_return_def split: prod.splits sum.splits)

lemma run_try_create_or_update:
  assumes "read_inputs env = Inr inputs" "InputSchema pf inputs = Inr inputs"
    "\<not> dry_run inputs" "operation inputs = ''create_or_update''"
    "createJiraClient connect (email inputs) (api_token inputs) (subdomain inputs)
       = Inr client"
    "upsertProjectVersion pf client (jira_project inputs) (upsert_params_of inputs) s
       = (Inr version, s1, ev1)"
  shows "run_try pf connect env s =
           (case (if tickets inputs \<noteq> [] then
                    setVersionOnIssues client (version_id version)
                      (map trim (split_on CHR '','' (tickets inputs)))
                  else io_return ()) s1 of
              (r, s2, ev2) \<Rightarrow>
                (r, s2, Info (''Performing release operation '' @ operation inputs
                  @ '' on project '' @ jira_project inputs
                  @ '' for release '' @ release_name inputs @ ''...'') # ev1 @ ev2))"
  using assms
  by (simp add: run_try_def io_bind_def io_lift_def core_info_def
      split: prod.splits sum.splits)


lemma run_try_dry_run:
  assumes "read_inputs env = Inr inputs" "InputSchema pf inputs = Inr inputs"
    "dry_run inputs"
  shows "run_try pf connect env s =
           (Inr (), s, [Info ''Dry run enabled, dumping config:'', InfoConfig inputs])"
  using assms
  by (simp add: run_try_def io_bind_def io_lift_def core_info_def)

section \<open>A release date of whitespace\<close>

text \<open>
  A non-empty string of whitespace is not in the standard date format, and trims to the
  empty string.
\<close>

lemma is_ws_not_digit: "is_ws c \<Longrightarrow> digit_val c = None"
  by (auto simp: is_ws_def digit_val_def)

lemma is_ws_not_sign: "is_ws c \<Longrightarrow> c \<noteq> CHR ''+'' \<and> c \<noteq> CHR ''-''"
  by (auto simp: is_ws_def)

lemma parse_iso_date_whitespace:
  assumes "d \<noteq> []" "\<forall>c \<in> set d. is_ws c"
  shows "parse_iso_date d = None"
proof -
  from assms obtain c cs where d: "d = c # cs" and w: "is_ws c"
    by (cases d) auto
  have "leading_number 4 (c # cs) = None"
  proof (cases "length (c # cs) < 4")
    case True
    then show ?thesis by (simp add: leading_number_def)
  next
    case False
    have "take 4 (c # cs) = c # take 3 cs" by (simp add: take_Cons')
    then have "digits_acc 0 (take 4 (c # cs)) = None"
      using is_ws_not_digit [OF w] by simp
    then show ?thesis by (simp add: leading_number_def)
  qed
  then show ?thesis
    using is_ws_not_sign [OF w] by (simp add: parse_iso_date_def d)
qed

lemma trim_whitespace:
  assumes "\<forall>c \<in> set d. is_ws c"
  shows "trim d = []"
proof -
  have e: "dropWhile is_ws d = []" using assms by (simp add: dropWhile_eq_Nil_conv)
  show ?thesis unfolding trim_def e by simp
qed

text \<open>Trimming twice is trimming once.\<close>

lemma dropWhile_fixed: "xs = [] \<or> \<not> P (hd xs) \<Longrightarrow> dropWhile P xs = xs"
  by (cases xs) auto

lemma trim_trim: "trim (trim s) = trim s"
proof -
  define t where "t = dropWhile is_ws s"
  define u where "u = dropWhile is_ws (rev t)"
  have t: "t = [] \<or> \<not> is_ws (hd t)"
    unfolding t_def using hd_dropWhile [of is_ws s] by blast
  have u: "u = [] \<or> \<not> is_ws (hd u)"
    unfolding u_def using hd_dropWhile [of is_ws "rev t"] by blast
  have "rev t = takeWhile is_ws (rev t) @ u" unfolding u_def by simp
  then have "t = rev u @ rev (takeWhile is_ws (rev t))"
    by (metis rev_append rev_rev_ident)
  then have "rev u = [] \<or> hd (rev u) = hd t" by (metis hd_append2)
  moreover have "rev u \<noteq> [] \<Longrightarrow> t \<noteq> []" unfolding u_def by auto
  ultimately have "rev u = [] \<or> \<not> is_ws (hd (rev u))" using t by auto
  then have a: "dropWhile is_ws (rev u) = rev u" by (rule dropWhile_fixed)
  have b: "dropWhile is_ws u = u" using u by (rule dropWhile_fixed)
  have "trim s = rev u" by (simp add: trim_def t_def u_def)
  moreover have "trim (rev u) = rev u" by (simp add: trim_def a b)
  ultimately show ?thesis by simp
qed

text \<open>
  After the inputs are read and validated, the first normalization step of an upsert
  returns: a date that is read is trimmed, so that the schema checked it when it is not
  empty.
\<close>

lemma InputSchema_date:
  assumes "InputSchema pf inputs = Inr input" "trim (release_release_date inputs) \<noteq> []"
  shows "new_Date (date_parse_other pf) (release_release_date inputs) \<noteq> None"
  using assms by (auto simp: InputSchema_def release_date_check_def Let_def split: if_splits)

lemma validated_date_reformats:
  assumes "read_inputs env = Inr inputs" "InputSchema pf inputs = Inr input"
  shows "\<exists>d. reformat_or_undefined pf (releaseDate (upsert_params_of inputs)) = Inr d"
proof (cases "release_release_date inputs = []")
  case True
  then show ?thesis by (simp add: upsert_params_of_def reformat_or_undefined_def)
next
  case False
  then have "trim (release_release_date inputs) \<noteq> []"
    using read_inputs_strings(9) [OF assms(1)] by (simp add: trim_trim)
  from InputSchema_date [OF assms(2) this]
  obtain t where "new_Date (date_parse_other pf) (release_release_date inputs) = Some t"
    by auto
  with False show ?thesis
    by (simp add: upsert_params_of_def reformat_or_undefined_def iso_date_part_Some)
qed

section \<open>The example platform and tracker, evaluated\<close>

text \<open>
  What the example platform and tracker compute, derived from the lemmas above: the
  calendar is evaluated twice, for the clock and for the fifth of March 2024.
\<close>

lemma demo_platform_simps:
  "clock demo_platform = 1730641234567"
  "date_parse_other demo_platform s
     = (if s = ''March 5, 2024'' then Some 1709596800000 else None)"
  "picklist_message demo_platform s = ''Invalid type: received '' @ s"
  "json_error demo_platform e
     = ErrorInstance ''TypeError'' ''Converting circular structure to JSON''"
  by (simp_all add: demo_platform_def)

lemma demo_clock_day: "utc_day_string 1730641234567 = ''2024-11-03''"
  by code_simp

lemma demo_march_day: "utc_day_string 1709596800000 = ''2024-03-05''"
  by code_simp

lemma demo_not_iso:
  "parse_iso_date ''March 5, 2024'' = None"
  "parse_iso_date ''not-a-date'' = None"
  by code_simp+

lemma demo_new_Date:
  "new_Date (date_parse_other demo_platform) ''March 5, 2024'' = Some 1709596800000"
  "new_Date (date_parse_other demo_platform) ''2024-03-05'' = Some 1709596800000"
  "new_Date (date_parse_other demo_platform) ''not-a-date'' = None"
  "new_Date (date_parse_other demo_platform) ''  '' = None"
proof -
  show "new_Date (date_parse_other demo_platform) ''March 5, 2024'' = Some 1709596800000"
    by (simp add: new_Date_def Date_parse_def demo_not_iso demo_platform_simps TimeClip_def)
  have "in_range 1709596800000" by (simp add: in_range_def)
  from new_Date_utc_day_string [OF this, of "date_parse_other demo_platform"]
  show "new_Date (date_parse_other demo_platform) ''2024-03-05'' = Some 1709596800000"
    by (simp add: demo_march_day Day_def msPerDay_def)
  show "new_Date (date_parse_other demo_platform) ''not-a-date'' = None"
    by (simp add: new_Date_def Date_parse_def demo_not_iso demo_platform_simps)
  have "parse_iso_date ''  '' = None"
    by (rule parse_iso_date_whitespace) (simp_all add: is_ws_def)
  then show "new_Date (date_parse_other demo_platform) ''  '' = None"
    by (simp add: new_Date_def Date_parse_def demo_platform_simps)
qed

lemma demo_reformat:
  "reformat_or_undefined demo_platform (Some ''March 5, 2024'') = Inr (Some ''2024-03-05'')"
  "reformat_or_undefined demo_platform (Some ''2024-03-05'') = Inr (Some ''2024-03-05'')"
  "reformat_if_set demo_platform (Some ''2024-03-05'') = Inr (Some ''2024-03-05'')"
  "reformat_or_undefined demo_platform (Some ''not-a-date'')
     = Inl (ErrorInstance ''RangeError'' ''Invalid time value'')"
  "reformat_or_undefined demo_platform (Some ''  '')
     = Inl (ErrorInstance ''RangeError'' ''Invalid time value'')"
  by (simp_all add: reformat_or_undefined_def reformat_if_set_def demo_new_Date
      iso_date_part_Some iso_date_part_None demo_march_day)

lemma demo_prepare_undated:
  assumes "released p" "\<not> truthy (releaseDate p)"
  shows "prepareUpsertParams demo_platform p = Inr (p\<lparr>releaseDate := Some ''2024-11-03''\<rparr>)"
  using prepare_released_no_date [OF assms, of demo_platform]
  by (simp add: demo_platform_simps in_range_def demo_clock_day)

lemma demo_client_simps:
  "getProjectVersionsPaginated demo_client key q n = (Inr (Some demo_versions), Suc n)"
  "getProject demo_client key n = (Inr ''20000'', Suc n)"
  "createVersion demo_client p pid n
     = (Inr \<lparr>version_id = Some ''10005'', version_name = Some (name p)\<rparr>, Suc n)"
  "updateVersion demo_client p i n
     = (Inr \<lparr>version_id = Some i, version_name = Some (name p)\<rparr>, Suc n)"
  "deleteAndReplaceVersion demo_client i n = (Inr (), Suc n)"
  "editIssue demo_client k v n = (Inr (), Suc n)"
  by (simp_all add: demo_client_def)

lemma tag_failing_client_simps:
  "getProjectVersionsPaginated tag_failing_client key q n = (Inr (Some demo_versions), Suc n)"
  "updateVersion tag_failing_client p i n
     = (Inr \<lparr>version_id = Some i, version_name = Some (name p)\<rparr>, Suc n)"
  "editIssue tag_failing_client k v n
     = (Inl (ErrorInstance ''HttpException'' ''Issue does not exist''), Suc n)"
  by (simp_all add: tag_failing_client_def demo_client_def)


lemma demo_find:
  "find (\<lambda>v. version_name v = Some ''v1.2.0'') demo_versions
     = Some \<lparr>version_id = Some ''10003'', version_name = Some ''v1.2.0''\<rparr>"
  "find (\<lambda>v. version_name v = Some ''v1.2'') demo_versions = None"
  "find (\<lambda>v. version_name v = Some ''v9'') demo_versions = None"
  by (simp_all add: demo_versions_def)

lemma demo_upsert_undated:
  assumes "getProjectVersionsPaginated c ''AB'' ''v1.2.0'' 0 = (Inr (Some demo_versions), 1)"
    and "updateVersion c (undated_spec\<lparr>releaseDate := Some ''2024-11-03''\<rparr>) ''10003'' 1
           = (Inr \<lparr>version_id = Some ''10003'', version_name = Some ''v1.2.0''\<rparr>, 2)"
  shows "upsertProjectVersion demo_platform c ''AB'' undated_spec 0
           = (Inr \<lparr>version_id = Some ''10003'', version_name = Some ''v1.2.0''\<rparr>, 2,
              [Info ''Getting version v1.2.0...'',
               Request (GetProjectVersionsPaginated ''AB'' ''v1.2.0''),
               Info ''Updating project version v1.2.0...'',
               Request (UpdateVersion (undated_spec\<lparr>releaseDate := Some ''2024-11-03''\<rparr>)
                          ''10003'')])"
proof -
  have u: "released undated_spec" "\<not> truthy (releaseDate undated_spec)"
    "name undated_spec = ''v1.2.0''" "releaseDate undated_spec = None"
    "undated_spec\<lparr>releaseDate := None\<rparr> = undated_spec"
    by (simp_all add: undated_spec_def truthy_def)
  have p: "prepareUpsertParams demo_platform undated_spec
             = Inr (undated_spec\<lparr>releaseDate := Some ''2024-11-03''\<rparr>)"
    using u(1,2) by (rule demo_prepare_undated)
  have n: "name (undated_spec\<lparr>releaseDate := Some ''2024-11-03''\<rparr>) = ''v1.2.0''"
    by (simp add: undated_spec_def)
  show ?thesis
    using assms
    by (simp add: upsert_result lookup_result update_result u p n demo_find truthy_id_def
        reformat_or_undefined_def)
qed

lemma demo_inputs_valid:
  "InputSchema demo_platform demo_inputs = Inr demo_inputs"
  "InputSchema demo_platform (demo_inputs\<lparr>tickets := []\<rparr>) = Inr (demo_inputs\<lparr>tickets := []\<rparr>)"
  "InputSchema demo_platform (demo_inputs\<lparr>dry_run := True\<rparr>) = Inr (demo_inputs\<lparr>dry_run := True\<rparr>)"
  by (simp_all add: InputSchema_def release_date_check_def trim_def demo_inputs_def)

lemma demo_inputs_simps:
  "upsert_params_of demo_inputs = undated_spec"
  "upsert_params_of (demo_inputs\<lparr>tickets := []\<rparr>) = undated_spec"
  "jira_project demo_inputs = ''AB''"
  "operation demo_inputs = ''create_or_update''"
  "\<not> dry_run demo_inputs"
  "tickets demo_inputs = ''AB-1, AB-2''"
  "release_name demo_inputs = ''v1.2.0''"
  by (simp_all add: upsert_params_of_def demo_inputs_def undated_spec_def)

lemma demo_upsert_unreleased:
  "upsertProjectVersion demo_platform demo_client ''AB'' unreleased_spec 0
     = (Inr \<lparr>version_id = Some ''10005'', version_name = Some ''v9''\<rparr>, 3,
        [Info ''Getting version v9...'', Request (GetProjectVersionsPaginated ''AB'' ''v9''),
         Request (GetProject ''AB''), Info ''Creating project version v9...'',
         Request (CreateVersion (unreleased_spec\<lparr>releaseDate := None\<rparr>) ''20000'')])"
proof -
  have u: "name unreleased_spec = ''v9''" "releaseDate unreleased_spec = Some ''2024-03-05''"
    "name (unreleased_spec\<lparr>releaseDate := None\<rparr>) = ''v9''"
    by (simp_all add: unreleased_spec_def)
  have p: "prepareUpsertParams demo_platform (unreleased_spec\<lparr>releaseDate := Some ''2024-03-05''\<rparr>)
             = Inr (unreleased_spec\<lparr>releaseDate := None\<rparr>)"
    using prepare_not_released [of "unreleased_spec\<lparr>releaseDate := Some ''2024-03-05''\<rparr>"
        demo_platform]
    by (simp add: unreleased_spec_def)
  show ?thesis
    by (simp add: upsert_result lookup_result create_result u p demo_find truthy_id_def
        demo_reformat demo_client_simps)
qed

lemma demo_upsert_malformed:
  "upsertProjectVersion demo_platform demo_client ''AB'' malformed_spec 0
     = (Inl (ErrorInstance ''RangeError'' ''Invalid time value''), 0, [])"
  "fst (upsertProjectVersion demo_platform demo_client ''AB''
          (malformed_spec\<lparr>releaseDate := None\<rparr>) 0)
     = Inr \<lparr>version_id = Some ''10005'', version_name = Some ''v9''\<rparr>"
proof -
  have u: "name malformed_spec = ''v9''" "releaseDate malformed_spec = Some ''not-a-date''"
    "released (malformed_spec\<lparr>releaseDate := None\<rparr>)"
    "\<not> truthy (releaseDate (malformed_spec\<lparr>releaseDate := None\<rparr>))"
    by (simp_all add: malformed_spec_def truthy_def)
  show "upsertProjectVersion demo_platform demo_client ''AB'' malformed_spec 0
     = (Inl (ErrorInstance ''RangeError'' ''Invalid time value''), 0, [])"
    by (simp add: upsert_result u demo_reformat)
  have p: "prepareUpsertParams demo_platform (malformed_spec\<lparr>releaseDate := None\<rparr>)
             = Inr (malformed_spec\<lparr>releaseDate := Some ''2024-11-03''\<rparr>)"
    using demo_prepare_undated [OF u(3,4)] by simp
  show "fst (upsertProjectVersion demo_platform demo_client ''AB''
          (malformed_spec\<lparr>releaseDate := None\<rparr>) 0)
     = Inr \<lparr>version_id = Some ''10005'', version_name = Some ''v9''\<rparr>"
    by (simp add: upsert_result lookup_result create_result u p demo_find truthy_id_def
        reformat_or_undefined_def demo_client_simps)
qed

lemma demo_lookup:
  "getProjectVersionByName demo_client ''AB'' ''v1.2.0'' 0
     = (Inr (Some \<lparr>version_id = Some ''10003'', version_name = Some ''v1.2.0''\<rparr>), 1,
        [Info ''Getting version v1.2.0...'',
         Request (GetProjectVersionsPaginated ''AB'' ''v1.2.0'')])"
  "getProjectVersionByName demo_client ''AB'' ''v9'' 0
     = (Inr None, 1,
        [Info ''Getting version v9...'', Request (GetProjectVersionsPaginated ''AB'' ''v9'')])"
  by (simp_all add: lookup_result demo_client_simps demo_find)


lemma demo_read:
  "read_inputs demo_env = Inr demo_inputs"
  "read_inputs (demo_env(''dry_run'' := ''true'')) = Inr (demo_inputs\<lparr>dry_run := True\<rparr>)"
  "read_inputs (demo_env(''tickets'' := ''  '')) = Inr (demo_inputs\<lparr>tickets := []\<rparr>)"
  "read_inputs (demo_env(''operation'' := ''remove''))
     = Inr (demo_inputs\<lparr>operation := ''remove''\<rparr>)"
  "read_inputs (demo_env(''release_release_date'' := ''  '')) = Inr demo_inputs"
  "read_inputs (demo_env(''email'' := []))
     = Inl (ErrorInstance ''Error'' ''Input required and not supplied: email'')"
  by (simp_all add: read_inputs_def then_read_def getInput_def getBooleanInput_def
      demo_env_def env_of_def demo_inputs_def trim_def is_ws_def)

lemma demo_connect: "createJiraClient (\<lambda>c. Inr client) em tok sub = Inr client"
  by (simp add: createJiraClient_def)

lemma demo_run_try:
  "run_try demo_platform (\<lambda>c. Inr demo_client) demo_env 0
     = (Inr (), 4,
        [Info ''Performing release operation create_or_update on project AB for release v1.2.0...'',
         Info ''Getting version v1.2.0...'',
         Request (GetProjectVersionsPaginated ''AB'' ''v1.2.0''),
         Info ''Updating project version v1.2.0...'',
         Request (UpdateVersion (undated_spec\<lparr>releaseDate := Some ''2024-11-03''\<rparr>) ''10003''),
         Request (EditIssue ''AB-1'' (Some ''10003'')),
         Request (EditIssue ''AB-2'' (Some ''10003''))])"
proof -
  have u: "upsertProjectVersion demo_platform demo_client (jira_project demo_inputs)
             (upsert_params_of demo_inputs) 0
           = (Inr \<lparr>version_id = Some ''10003'', version_name = Some ''v1.2.0''\<rparr>, 2,
              [Info ''Getting version v1.2.0...'',
               Request (GetProjectVersionsPaginated ''AB'' ''v1.2.0''),
               Info ''Updating project version v1.2.0...'',
               Request (UpdateVersion (undated_spec\<lparr>releaseDate := Some ''2024-11-03''\<rparr>)
                          ''10003'')])"
    using demo_upsert_undated [of demo_client]
    by (simp add: demo_inputs_simps demo_client_simps undated_spec_def)
  show ?thesis
    using run_try_create_or_update [OF demo_read(1) demo_inputs_valid(1) demo_inputs_simps(5)
        demo_inputs_simps(4) demo_connect u]
    by (simp add: demo_inputs_simps split_two_tickets io_bind_def await_request_def
        io_return_def demo_client_simps del: split_on.simps)
qed

lemma demo_run:
  "run demo_platform (\<lambda>c. Inr demo_client) demo_env 0
     = (Inr (), 4,
        [Info ''Performing release operation create_or_update on project AB for release v1.2.0...'',
         Info ''Getting version v1.2.0...'',
         Request (GetProjectVersionsPaginated ''AB'' ''v1.2.0''),
         Info ''Updating project version v1.2.0...'',
         Request (UpdateVersion (undated_spec\<lparr>releaseDate := Some ''2024-11-03''\<rparr>) ''10003''),
         Request (EditIssue ''AB-1'' (Some ''10003'')),
         Request (EditIssue ''AB-2'' (Some ''10003''))])"
  by (simp add: run_def demo_run_try)

lemma demo_run_tag_failing:
  "run demo_platform (\<lambda>c. Inr tag_failing_client) demo_env 0
     = (Inr (), 3,
        [Info ''Performing release operation create_or_update on project AB for release v1.2.0...'',
         Info ''Getting version v1.2.0...'',
         Request (GetProjectVersionsPaginated ''AB'' ''v1.2.0''),
         Info ''Updating project version v1.2.0...'',
         Request (UpdateVersion (undated_spec\<lparr>releaseDate := Some ''2024-11-03''\<rparr>) ''10003''),
         Request (EditIssue ''AB-1'' (Some ''10003'')),
         Rejected (ErrorInstance ''HttpException'' ''Issue does not exist''),
         SetFailed ''Issue does not exist''])"
proof -
  have u: "upsertProjectVersion demo_platform tag_failing_client (jira_project demo_inputs)
             (upsert_params_of demo_inputs) 0
           = (Inr \<lparr>version_id = Some ''10003'', version_name = Some ''v1.2.0''\<rparr>, 2,
              [Info ''Getting version v1.2.0...'',
               Request (GetProjectVersionsPaginated ''AB'' ''v1.2.0''),
               Info ''Updating project version v1.2.0...'',
               Request (UpdateVersion (undated_spec\<lparr>releaseDate := Some ''2024-11-03''\<rparr>)
                          ''10003'')])"
    using demo_upsert_undated [of tag_failing_client]
    by (simp add: demo_inputs_simps tag_failing_client_simps undated_spec_def)
  have "run_try demo_platform (\<lambda>c. Inr tag_failing_client) demo_env 0
     = (Inl (ErrorInstance ''HttpException'' ''Issue does not exist''), 3,
           [Info ''Performing release operation create_or_update on project AB for release v1.2.0...'',
            Info ''Getting version v1.2.0...'',
            Request (GetProjectVersionsPaginated ''AB'' ''v1.2.0''),
            Info ''Updating project version v1.2.0...'',
            Request (UpdateVersion (undated_spec\<lparr>releaseDate := Some ''2024-11-03''\<rparr>) ''10003''),
            Request (EditIssue ''AB-1'' (Some ''10003'')),
            Rejected (ErrorInstance ''HttpException'' ''Issue does not exist'')])"
    using run_try_create_or_update [OF demo_read(1) demo_inputs_valid(1) demo_inputs_simps(5)
        demo_inputs_simps(4) demo_connect u]
    by (simp add: demo_inputs_simps split_two_tickets io_bind_def await_request_def
        io_return_def tag_failing_client_simps del: split_on.simps)
  then show ?thesis
    by (simp add: run_def serialisable_def instanceof_Error_def error_message_def)
qed



section \<open>The claims\<close>




text \<open>
  Claim C2. For every VersionSpec with \<^verbatim>\<open>released = true\<close> and no supplied release
  date (absent, or the empty string), every payload that upsert sends has as its release
  date the UTC calendar day of the clock, written year-month-day; and when the lookup
  resolves, upsert sends exactly one such payload: to update when the lookup found a
  version with an id, and to create, once the project lookup has resolved, when it did
  not. The clock is a time value that \<^verbatim>\<open>Date\<close> can hold. The year is written in four
  digits from year 0 to year 9999, which is \<^verbatim>\<open>YYYY-MM-DD\<close>.
\<close>

theorem upsert_released_undated_today:
  assumes "released params" "\<not> truthy (releaseDate params)"
  shows "(\<forall>p \<in> set (sent_payloads (snd (snd (upsertProjectVersion pf client key params s)))).
            releaseDate p = Some (utc_day_string (clock pf))
            \<and> p = params\<lparr>releaseDate := Some (utc_day_string (clock pf))\<rparr>)
       \<and> (in_range (clock pf)
            \<and> getProjectVersionByName client key (name params) s = (Inr version, s1, ev1)
          \<longrightarrow> (truthy_id version = Some i
                \<longrightarrow> sent_payloads (snd (snd (upsertProjectVersion pf client key params s)))
                      = [params\<lparr>releaseDate := Some (utc_day_string (clock pf))\<rparr>]
                    \<and> requests (snd (snd (upsertProjectVersion pf client key params s)))
                        = [GetProjectVersionsPaginated key (name params),
                           UpdateVersion
                             (params\<lparr>releaseDate := Some (utc_day_string (clock pf))\<rparr>) i])
              \<and> (truthy_id version = None \<and> getProject client key s1 = (Inr pid, s2)
                \<longrightarrow> sent_payloads (snd (snd (upsertProjectVersion pf client key params s)))
                      = [params\<lparr>releaseDate := Some (utc_day_string (clock pf))\<rparr>]
                    \<and> requests (snd (snd (upsertProjectVersion pf client key params s)))
                        = [GetProjectVersionsPaginated key (name params), GetProject key,
                           CreateVersion
                             (params\<lparr>releaseDate := Some (utc_day_string (clock pf))\<rparr>)
                             pid]))"
proof -
  let ?today = "params\<lparr>releaseDate := Some (utc_day_string (clock pf))\<rparr>"
  have d: "reformat_or_undefined pf (releaseDate params) = Inr None"
    using assms(2) by (auto simp: reformat_or_undefined_def truthy_def split: option.splits)
  have q: "prepareUpsertParams pf (params\<lparr>releaseDate := None\<rparr>) =
           (if in_range (clock pf) then Inr ?today
            else Inl (ErrorInstance ''RangeError'' ''Invalid time value''))"
    using assms(1) prepare_released_no_date [of "params\<lparr>releaseDate := None\<rparr>" pf]
    by (simp add: truthy_def)
  have a: "\<forall>p \<in> set (sent_payloads (snd (snd (upsertProjectVersion pf client key params s)))).
            releaseDate p = Some (utc_day_string (clock pf)) \<and> p = ?today"
  proof
    fix p
    assume "p \<in> set (sent_payloads (snd (snd (upsertProjectVersion pf client key params s))))"
    from upsert_payloads [OF this]
    obtain d' where d': "reformat_or_undefined pf (releaseDate params) = Inr d'"
      and p: "prepareUpsertParams pf (params\<lparr>releaseDate := d'\<rparr>) = Inr p"
      by blast
    from d d' have "d' = None" by simp
    with p q show "releaseDate p = Some (utc_day_string (clock pf)) \<and> p = ?today"
      by (auto split: if_splits)
  qed
  have b: "in_range (clock pf)
            \<and> getProjectVersionByName client key (name params) s = (Inr version, s1, ev1)
          \<longrightarrow> (truthy_id version = Some i
                \<longrightarrow> sent_payloads (snd (snd (upsertProjectVersion pf client key params s)))
                      = [?today]
                    \<and> requests (snd (snd (upsertProjectVersion pf client key params s)))
                        = [GetProjectVersionsPaginated key (name params),
                           UpdateVersion ?today i])
              \<and> (truthy_id version = None \<and> getProject client key s1 = (Inr pid, s2)
                \<longrightarrow> sent_payloads (snd (snd (upsertProjectVersion pf client key params s)))
                      = [?today]
                    \<and> requests (snd (snd (upsertProjectVersion pf client key params s)))
                        = [GetProjectVersionsPaginated key (name params), GetProject key,
                           CreateVersion ?today pid])"
  proof
    assume h: "in_range (clock pf)
            \<and> getProjectVersionByName client key (name params) s = (Inr version, s1, ev1)"
    then have l: "getProjectVersionByName client key (name params) s = (Inr version, s1, ev1)"
      by simp
    from h q have q': "prepareUpsertParams pf (params\<lparr>releaseDate := None\<rparr>) = Inr ?today"
      by simp
    show "(truthy_id version = Some i
                \<longrightarrow> sent_payloads (snd (snd (upsertProjectVersion pf client key params s)))
                      = [?today]
                    \<and> requests (snd (snd (upsertProjectVersion pf client key params s)))
                        = [GetProjectVersionsPaginated key (name params),
                           UpdateVersion ?today i])
              \<and> (truthy_id version = None \<and> getProject client key s1 = (Inr pid, s2)
                \<longrightarrow> sent_payloads (snd (snd (upsertProjectVersion pf client key params s)))
                      = [?today]
                    \<and> requests (snd (snd (upsertProjectVersion pf client key params s)))
                        = [GetProjectVersionsPaginated key (name params), GetProject key,
                           CreateVersion ?today pid])"
      using upsert_update_sends [OF d l _ q', of i]
        upsert_create_sends [OF d l _ _ q', of pid s2]
      by blast
  qed
  show ?thesis by (rule conjI [OF a b])
qed

theorem upsert_released_undated_today_witness:
  "released undated_spec \<and> \<not> truthy (releaseDate undated_spec)
   \<and> in_range (clock demo_platform)
   \<and> utc_day_string (clock demo_platform) = ''2024-11-03''
   \<and> fst (getProjectVersionByName demo_client ''AB'' ''v1.2.0'' 0)
       = Inr (Some \<lparr>version_id = Some ''10003'', version_name = Some ''v1.2.0''\<rparr>)
   \<and> sent_payloads (snd (snd (upsertProjectVersion demo_platform demo_client ''AB''
         undated_spec 0))) = [undated_spec\<lparr>releaseDate := Some ''2024-11-03''\<rparr>]
   \<and> requests (snd (snd (upsertProjectVersion demo_platform demo_client ''AB''
         undated_spec 0)))
       = [GetProjectVersionsPaginated ''AB'' ''v1.2.0'',
          UpdateVersion (undated_spec\<lparr>releaseDate := Some ''2024-11-03''\<rparr>) ''10003'']
   \<and> fst (getProjectVersionByName demo_client ''AB'' ''v9'' 0) = Inr None
   \<and> getProject demo_client ''AB'' 1 = (Inr ''20000'', 2)
   \<and> sent_payloads (snd (snd (upsertProjectVersion demo_platform demo_client ''AB''
         (undated_spec\<lparr>name := ''v9'', releaseDate := Some []\<rparr>) 0)))
       = [undated_spec\<lparr>name := ''v9'', releaseDate := Some ''2024-11-03''\<rparr>]
   \<and> requests (snd (snd (upsertProjectVersion demo_platform demo_client ''AB''
         (undated_spec\<lparr>name := ''v9'', releaseDate := Some []\<rparr>) 0)))
       = [GetProjectVersionsPaginated ''AB'' ''v9'', GetProject ''AB'',
          CreateVersion (undated_spec\<lparr>name := ''v9'', releaseDate := Some ''2024-11-03''\<rparr>)
            ''20000'']
   \<and> list_all (\<lambda>p. releaseDate p = Some ''2024-11-03'')
        (sent_payloads (snd (snd (upsertProjectVersion demo_platform demo_client ''AB''
           undated_spec 0))))"
proof -
  let ?v = "\<lparr>version_id = Some ''10003'', version_name = Some ''v1.2.0''\<rparr>"
  let ?c = "undated_spec\<lparr>name := ''v9'', releaseDate := Some []\<rparr>"
  have h: "released undated_spec" "\<not> truthy (releaseDate undated_spec)"
    "released ?c" "\<not> truthy (releaseDate ?c)"
    by (simp_all add: undated_spec_def truthy_def)
  have n: "name undated_spec = ''v1.2.0''" "name ?c = ''v9''"
    "?c\<lparr>releaseDate := Some ''2024-11-03''\<rparr>
       = undated_spec\<lparr>name := ''v9'', releaseDate := Some ''2024-11-03''\<rparr>"
    by (simp_all add: undated_spec_def)
  have k: "in_range (clock demo_platform)"
    "utc_day_string (clock demo_platform) = ''2024-11-03''"
    by (simp_all add: demo_platform_simps in_range_def demo_clock_day)
  have t: "truthy_id None = None" "truthy_id (Some ?v) = Some ''10003''"
    by (simp_all add: truthy_id_def)
  have g: "getProject demo_client ''AB'' 1 = (Inr ''20000'', 2)"
    by (simp add: demo_client_simps)
  have k1: "in_range (clock demo_platform)
            \<and> getProjectVersionByName demo_client ''AB'' (name undated_spec) 0
                = (Inr (Some ?v), 1, [Info ''Getting version v1.2.0...'',
                     Request (GetProjectVersionsPaginated ''AB'' ''v1.2.0'')])"
    by (simp add: n k demo_lookup)
  have k2: "in_range (clock demo_platform)
            \<and> getProjectVersionByName demo_client ''AB'' (name ?c) 0
                = (Inr None, 1, [Info ''Getting version v9...'',
                                 Request (GetProjectVersionsPaginated ''AB'' ''v9'')])"
    by (simp add: n k demo_lookup)
  have "sent_payloads (snd (snd (upsertProjectVersion demo_platform demo_client ''AB''
          undated_spec 0)))
          = [undated_spec\<lparr>releaseDate := Some (utc_day_string (clock demo_platform))\<rparr>]
     \<and> requests (snd (snd (upsertProjectVersion demo_platform demo_client ''AB''
          undated_spec 0)))
       = [GetProjectVersionsPaginated ''AB'' (name undated_spec),
          UpdateVersion
            (undated_spec\<lparr>releaseDate := Some (utc_day_string (clock demo_platform))\<rparr>)
            ''10003'']"
    by (rule upsert_released_undated_today [OF h(1,2), THEN conjunct2, THEN mp, OF k1,
          THEN conjunct1, THEN mp, OF t(2)])
  then have u: "sent_payloads (snd (snd (upsertProjectVersion demo_platform demo_client ''AB''
         undated_spec 0))) = [undated_spec\<lparr>releaseDate := Some ''2024-11-03''\<rparr>]
     \<and> requests (snd (snd (upsertProjectVersion demo_platform demo_client ''AB''
         undated_spec 0)))
       = [GetProjectVersionsPaginated ''AB'' ''v1.2.0'',
          UpdateVersion (undated_spec\<lparr>releaseDate := Some ''2024-11-03''\<rparr>) ''10003'']"
    by (simp only: n k)
  have "sent_payloads (snd (snd (upsertProjectVersion demo_platform demo_client ''AB''
          ?c 0)))
          = [?c\<lparr>releaseDate := Some (utc_day_string (clock demo_platform))\<rparr>]
     \<and> requests (snd (snd (upsertProjectVersion demo_platform demo_client ''AB'' ?c 0)))
       = [GetProjectVersionsPaginated ''AB'' (name ?c), GetProject ''AB'',
          CreateVersion
            (?c\<lparr>releaseDate := Some (utc_day_string (clock demo_platform))\<rparr>) ''20000'']"
    by (rule upsert_released_undated_today [OF h(3,4), THEN conjunct2, THEN mp, OF k2,
          THEN conjunct2, THEN mp, OF conjI [OF t(1) g]])
  then have c: "sent_payloads (snd (snd (upsertProjectVersion demo_platform demo_client ''AB''
         ?c 0))) = [undated_spec\<lparr>name := ''v9'', releaseDate := Some ''2024-11-03''\<rparr>]
     \<and> requests (snd (snd (upsertProjectVersion demo_platform demo_client ''AB'' ?c 0)))
       = [GetProjectVersionsPaginated ''AB'' ''v9'', GetProject ''AB'',
          CreateVersion (undated_spec\<lparr>name := ''v9'', releaseDate := Some ''2024-11-03''\<rparr>)
            ''20000'']"
    by (simp only: n k)
  have a: "list_all (\<lambda>p. releaseDate p = Some ''2024-11-03'')
        (sent_payloads (snd (snd (upsertProjectVersion demo_platform demo_client ''AB''
           undated_spec 0))))"
    by (simp only: u [THEN conjunct1]) simp
  have l: "fst (getProjectVersionByName demo_client ''AB'' ''v9'' 0) = Inr None"
    "fst (getProjectVersionByName demo_client ''AB'' ''v1.2.0'' 0) = Inr (Some ?v)"
    by (simp_all add: demo_lookup)
  show ?thesis
    by (intro conjI) (rule h(1,2) k g l a u [THEN conjunct1] u [THEN conjunct2]
        c [THEN conjunct1] c [THEN conjunct2])+
qed

text \<open>
  Claim C3, as the specification states it: during upsert, a supplied release date that
  fails to parse is treated as absent rather than raising an error. The code does not do
  that: \<^verbatim>\<open>toISOString\<close> throws on the invalid date. At the malformed date below upsert
  throws a \<^verbatim>\<open>RangeError\<close> and sends nothing, while the same parameters without a date
  go through.
\<close>

theorem upsert_malformed_date_counterexample:
  "new_Date (date_parse_other demo_platform) ''not-a-date'' = None
   \<and> releaseDate malformed_spec = Some ''not-a-date''
   \<and> upsertProjectVersion demo_platform demo_client ''AB'' malformed_spec 0
       = (Inl (ErrorInstance ''RangeError'' ''Invalid time value''), 0, [])
   \<and> fst (upsertProjectVersion demo_platform demo_client ''AB''
            (malformed_spec\<lparr>releaseDate := None\<rparr>) 0)
       = Inr \<lparr>version_id = Some ''10005'', version_name = Some ''v9''\<rparr>"
proof -
  have "releaseDate malformed_spec = Some ''not-a-date''" by (simp add: malformed_spec_def)
  then show ?thesis by (simp add: demo_new_Date demo_upsert_malformed)
qed

text \<open>
  Claim C3, amended. During upsert, a release date that is absent or the empty string is
  treated as absent; a non-empty release date that fails to parse as a date makes upsert
  throw a \<^verbatim>\<open>RangeError\<close> at the first normalization step, before any request to the
  tracker and with no event.
\<close>

theorem upsert_unparsable_date_throws:
  "(releaseDate params = Some d \<and> d \<noteq> [] \<and> new_Date (date_parse_other pf) d = None
      \<longrightarrow> upsertProjectVersion pf client key params s
            = (Inl (ErrorInstance ''RangeError'' ''Invalid time value''), s, []))
   \<and> (\<not> truthy (releaseDate params)
      \<longrightarrow> upsertProjectVersion pf client key params s
            = upsertProjectVersion pf client key (params\<lparr>releaseDate := None\<rparr>) s)"
proof (intro conjI impI)
  assume "releaseDate params = Some d \<and> d \<noteq> [] \<and> new_Date (date_parse_other pf) d = None"
  then have "reformat_or_undefined pf (releaseDate params)
               = Inl (ErrorInstance ''RangeError'' ''Invalid time value'')"
    by (simp add: reformat_or_undefined_def iso_date_part_None)
  then show "upsertProjectVersion pf client key params s
            = (Inl (ErrorInstance ''RangeError'' ''Invalid time value''), s, [])"
    by (simp add: upsert_result)
next
  assume "\<not> truthy (releaseDate params)"
  then have "reformat_or_undefined pf (releaseDate params) = Inr None"
    by (auto simp: reformat_or_undefined_def truthy_def split: option.splits)
  moreover have "reformat_or_undefined pf (releaseDate (params\<lparr>releaseDate := None\<rparr>))
                   = Inr None"
    by (simp add: reformat_or_undefined_def)
  ultimately show "upsertProjectVersion pf client key params s
            = upsertProjectVersion pf client key (params\<lparr>releaseDate := None\<rparr>) s"
    by (simp add: upsert_result [of pf client key params]
        upsert_result [of pf client key "params\<lparr>releaseDate := None\<rparr>"]
        split: prod.splits sum.splits option.splits)
qed

theorem upsert_unparsable_date_throws_witness:
  "releaseDate malformed_spec = Some ''not-a-date'' \<and> ''not-a-date'' \<noteq> []
   \<and> new_Date (date_parse_other demo_platform) ''not-a-date'' = None
   \<and> upsertProjectVersion demo_platform demo_client ''AB'' malformed_spec 0
       = (Inl (ErrorInstance ''RangeError'' ''Invalid time value''), 0, [])
   \<and> \<not> truthy (releaseDate (malformed_spec\<lparr>releaseDate := Some []\<rparr>))
   \<and> upsertProjectVersion demo_platform demo_client ''AB''
         (malformed_spec\<lparr>releaseDate := Some []\<rparr>) 0
       = upsertProjectVersion demo_platform demo_client ''AB''
           (malformed_spec\<lparr>releaseDate := None\<rparr>) 0"
proof -
  have h: "releaseDate malformed_spec = Some ''not-a-date'' \<and> ''not-a-date'' \<noteq> []
            \<and> new_Date (date_parse_other demo_platform) ''not-a-date'' = None"
    by (simp add: demo_new_Date malformed_spec_def)
  have g: "\<not> truthy (releaseDate (malformed_spec\<lparr>releaseDate := Some []\<rparr>))"
    by (simp add: truthy_def)
  have a: "upsertProjectVersion demo_platform demo_client ''AB'' malformed_spec 0
       = (Inl (ErrorInstance ''RangeError'' ''Invalid time value''), 0, [])"
    using upsert_unparsable_date_throws
      [of malformed_spec "''not-a-date''" demo_platform demo_client "''AB''" 0] h
    by blast
  have b: "upsertProjectVersion demo_platform demo_client ''AB''
         (malformed_spec\<lparr>releaseDate := Some []\<rparr>) 0
       = upsertProjectVersion demo_platform demo_client ''AB''
           (malformed_spec\<lparr>releaseDate := None\<rparr>) 0"
    using upsert_unparsable_date_throws
      [of "malformed_spec\<lparr>releaseDate := Some []\<rparr>" "[]" demo_platform demo_client "''AB''" 0] g
    by simp
  from h g a b show ?thesis by blast
qed




text \<open>
  Claim C5. For every project and name, when the lookup finds no version of that name
  (the page has no \<^verbatim>\<open>values\<close>, or none of them has the name),
  \<open>deleteProjectVersionByName\<close> throws an \<^verbatim>\<open>Error\<close> whose message carries the name, and
  the lookup is the only request it has issued. A delete request is issued only after a
  lookup that resolved and found a version of that name, for that version's id, and it is
  the second and last request.
\<close>

theorem delete_not_found:
  "(getProjectVersionsPaginated client key nm s = (Inr page, s1)
      \<and> (case page of None \<Rightarrow> True | Some vs \<Rightarrow> \<forall>v \<in> set vs. version_name v \<noteq> Some nm)
     \<longrightarrow> deleteProjectVersionByName client key nm s
           = (Inl (ErrorInstance ''Error'' (''Version '' @ nm @ '' not found'')), s1,
              [Info (''Getting version '' @ nm @ ''...''),
               Request (GetProjectVersionsPaginated key nm)]))
   \<and> (\<forall>i. DeleteAndReplaceVersion i
              \<in> set (requests (snd (snd (deleteProjectVersionByName client key nm s))))
         \<longrightarrow> (\<exists>vs s1 v. getProjectVersionsPaginated client key nm s = (Inr (Some vs), s1)
                \<and> find (\<lambda>v. version_name v = Some nm) vs = Some v
                \<and> version_id v = Some i
                \<and> requests (snd (snd (deleteProjectVersionByName client key nm s)))
                    = [GetProjectVersionsPaginated key nm, DeleteAndReplaceVersion i]))"
proof (intro conjI impI allI)
  assume a: "getProjectVersionsPaginated client key nm s = (Inr page, s1)
      \<and> (case page of None \<Rightarrow> True | Some vs \<Rightarrow> \<forall>v \<in> set vs. version_name v \<noteq> Some nm)"
  then have "(case page of None \<Rightarrow> None
              | Some vs \<Rightarrow> find (\<lambda>v. version_name v = Some nm) vs) = None"
    by (cases page) (simp_all add: find_None_iff)
  with a show "deleteProjectVersionByName client key nm s
           = (Inl (ErrorInstance ''Error'' (''Version '' @ nm @ '' not found'')), s1,
              [Info (''Getting version '' @ nm @ ''...''),
               Request (GetProjectVersionsPaginated key nm)])"
    by (simp add: delete_result lookup_result truthy_id_def)
next
  fix i
  assume d: "DeleteAndReplaceVersion i
              \<in> set (requests (snd (snd (deleteProjectVersionByName client key nm s))))"
  obtain r s1 where l: "getProjectVersionsPaginated client key nm s = (r, s1)"
    by (cases "getProjectVersionsPaginated client key nm s") auto
  show "\<exists>vs s1 v. getProjectVersionsPaginated client key nm s = (Inr (Some vs), s1)
                \<and> find (\<lambda>v. version_name v = Some nm) vs = Some v
                \<and> version_id v = Some i
                \<and> requests (snd (snd (deleteProjectVersionByName client key nm s)))
                    = [GetProjectVersionsPaginated key nm, DeleteAndReplaceVersion i]"
  proof (cases r)
    case (Inl e)
    with d l show ?thesis by (simp add: delete_result lookup_result)
  next
    case (Inr page)
    show ?thesis
    proof (cases page)
      case None
      with d l Inr show ?thesis by (simp add: delete_result lookup_result truthy_id_def)
    next
      case (Some vs)
      show ?thesis
      proof (cases "find (\<lambda>v. version_name v = Some nm) vs")
        case None
        with d l Inr Some show ?thesis
          by (simp add: delete_result lookup_result truthy_id_def)
      next
        case f: (Some v)
        show ?thesis
        proof (cases "truthy_id (Some v)")
          case None
          with d l Inr Some f show ?thesis by (simp add: delete_result lookup_result)
        next
          case t: (Some j)
          then have j: "version_id v = Some j"
            by (auto simp: truthy_id_def split: option.splits if_splits)
          have "requests (snd (snd (deleteProjectVersionByName client key nm s)))
                    = [GetProjectVersionsPaginated key nm, DeleteAndReplaceVersion j]"
            using l Inr Some f t
            by (simp add: delete_result lookup_result split: prod.splits sum.splits)
          moreover from this d have "i = j" by simp
          ultimately show ?thesis using l Inr Some f j by simp
        qed
      qed
    qed
  qed
qed

theorem delete_not_found_witness:
  "getProjectVersionsPaginated demo_client ''AB'' ''v1.2'' 0 = (Inr (Some demo_versions), 1)
   \<and> list_all (\<lambda>v. version_name v \<noteq> Some ''v1.2'') demo_versions
   \<and> deleteProjectVersionByName demo_client ''AB'' ''v1.2'' 0
       = (Inl (ErrorInstance ''Error'' ''Version v1.2 not found''), 1,
          [Info ''Getting version v1.2...'', Request (GetProjectVersionsPaginated ''AB'' ''v1.2'')])
   \<and> requests (snd (snd (deleteProjectVersionByName demo_client ''AB'' ''v1.2.0'' 0)))
       = [GetProjectVersionsPaginated ''AB'' ''v1.2.0'', DeleteAndReplaceVersion ''10003'']"
proof -
  have h1: "getProjectVersionsPaginated demo_client ''AB'' ''v1.2'' 0
              = (Inr (Some demo_versions), 1)"
    by (simp add: demo_client_simps)
  have h2: "\<forall>v \<in> set demo_versions. version_name v \<noteq> Some ''v1.2''"
    by (simp add: demo_versions_def)
  have a: "deleteProjectVersionByName demo_client ''AB'' ''v1.2'' 0
       = (Inl (ErrorInstance ''Error'' ''Version v1.2 not found''), 1,
          [Info ''Getting version v1.2...'', Request (GetProjectVersionsPaginated ''AB'' ''v1.2'')])"
    using delete_not_found [of demo_client "''AB''" "''v1.2''" 0 "Some demo_versions" 1] h1 h2
    by simp
  have b: "requests (snd (snd (deleteProjectVersionByName demo_client ''AB'' ''v1.2.0'' 0)))
       = [GetProjectVersionsPaginated ''AB'' ''v1.2.0'', DeleteAndReplaceVersion ''10003'']"
    by (simp add: delete_result lookup_result demo_client_simps demo_find truthy_id_def)
  from h1 h2 a b show ?thesis by (simp add: list_all_iff)
qed

text \<open>
  Claim C6. When the tracker resolves the lookup with a page, \<open>getProjectVersionByName\<close>
  issues that one request and returns the first element of the page whose name is equal
  to the requested name (equality of strings, so case matters), and returns null when the
  page has no \<^verbatim>\<open>values\<close> or no element with that name, whatever near matches it holds.
\<close>

theorem lookup_first_exact_match:
  assumes "getProjectVersionsPaginated client key nm s = (Inr page, s1)"
  shows "\<exists>r. fst (getProjectVersionByName client key nm s) = Inr r
           \<and> requests (snd (snd (getProjectVersionByName client key nm s)))
               = [GetProjectVersionsPaginated key nm]
           \<and> (case page of
                 None \<Rightarrow> r = None
               | Some vs \<Rightarrow>
                   (case r of
                      None \<Rightarrow> \<forall>v \<in> set vs. version_name v \<noteq> Some nm
                    | Some v \<Rightarrow>
                        \<exists>i < length vs. vs ! i = v \<and> version_name v = Some nm
                          \<and> (\<forall>j < i. version_name (vs ! j) \<noteq> Some nm)))"
proof (cases page)
  case None
  with assms show ?thesis by (simp add: lookup_result)
next
  case (Some vs)
  let ?r = "find (\<lambda>v. version_name v = Some nm) vs"
  have a: "fst (getProjectVersionByName client key nm s) = Inr ?r"
    using assms Some by (simp add: lookup_result)
  have b: "requests (snd (snd (getProjectVersionByName client key nm s)))
               = [GetProjectVersionsPaginated key nm]"
    using assms Some by (simp add: lookup_result)
  have c: "(case ?r of
              None \<Rightarrow> \<forall>v \<in> set vs. version_name v \<noteq> Some nm
            | Some v \<Rightarrow>
                \<exists>i < length vs. vs ! i = v \<and> version_name v = Some nm
                  \<and> (\<forall>j < i. version_name (vs ! j) \<noteq> Some nm))"
  proof (cases ?r)
    case None
    then have "\<forall>v \<in> set vs. version_name v \<noteq> Some nm"
      by (simp add: find_None_iff)
    with None show ?thesis by (simp only: option.case)
  next
    case (Some v)
    then have "\<exists>i < length vs. vs ! i = v \<and> version_name v = Some nm
                  \<and> (\<forall>j < i. version_name (vs ! j) \<noteq> Some nm)"
      by (auto simp: find_Some_iff)
    with Some show ?thesis by (simp only: option.case)
  qed
  from a b c Some show ?thesis by simp
qed

theorem lookup_first_exact_match_witness:
  "getProjectVersionsPaginated demo_client ''AB'' ''v1.2.0'' 0 = (Inr (Some demo_versions), 1)
   \<and> fst (getProjectVersionByName demo_client ''AB'' ''v1.2.0'' 0)
       = Inr (Some \<lparr>version_id = Some ''10003'', version_name = Some ''v1.2.0''\<rparr>)
   \<and> demo_versions ! 2 = \<lparr>version_id = Some ''10003'', version_name = Some ''v1.2.0''\<rparr>
   \<and> version_name (demo_versions ! 0) = Some ''v1.2.0-rc''
   \<and> version_name (demo_versions ! 1) = Some ''V1.2.0''
   \<and> fst (getProjectVersionByName demo_client ''AB'' ''v1.2'' 0) = Inr None
   \<and> list_all (\<lambda>v. version_name v \<noteq> Some ''v1.2'') demo_versions"
proof -
  have h: "getProjectVersionsPaginated demo_client ''AB'' ''v1.2.0'' 0
             = (Inr (Some demo_versions), 1)"
    by (simp add: demo_client_simps)
  have h': "getProjectVersionsPaginated demo_client ''AB'' ''v1.2'' 0
             = (Inr (Some demo_versions), 1)"
    by (simp add: demo_client_simps)
  have e: "fst (getProjectVersionByName demo_client ''AB'' ''v1.2.0'' 0)
       = Inr (Some \<lparr>version_id = Some ''10003'', version_name = Some ''v1.2.0''\<rparr>)"
    by (simp add: lookup_result demo_client_simps demo_find)
  have e': "fst (getProjectVersionByName demo_client ''AB'' ''v1.2'' 0) = Inr None"
    by (simp add: lookup_result demo_client_simps demo_find)
  from lookup_first_exact_match [OF h'] e'
  have "\<forall>v \<in> set demo_versions. version_name v \<noteq> Some ''v1.2''" by auto
  then have n: "list_all (\<lambda>v. version_name v \<noteq> Some ''v1.2'') demo_versions"
    by (simp add: list_all_iff)
  have d: "demo_versions ! 2 = \<lparr>version_id = Some ''10003'', version_name = Some ''v1.2.0''\<rparr>"
    "version_name (demo_versions ! 0) = Some ''v1.2.0-rc''"
    "version_name (demo_versions ! 1) = Some ''V1.2.0''"
    by (simp_all add: demo_versions_def)
  from h e e' n d show ?thesis by simp
qed

text \<open>
  Claim C7. For every configuration that is read, passes validation and has
  \<^verbatim>\<open>dry_run = true\<close>, \<open>run\<close> issues no request to the tracker and leaves its state as
  it was: it resolves, and its only events are the two log lines that report the
  validated configuration.
\<close>

theorem dry_run_no_requests:
  assumes "read_inputs env = Inr inputs" "InputSchema pf inputs = Inr input" "dry_run inputs"
  shows "run pf connect env s
           = (Inr (), s, [Info ''Dry run enabled, dumping config:'', InfoConfig inputs])
         \<and> requests (snd (snd (run pf connect env s))) = []"
proof -
  have i: "input = inputs" using assms(2) by (rule InputSchema_returns)
  have "run_try pf connect env s
          = (Inr (), s, [Info ''Dry run enabled, dumping config:'', InfoConfig inputs])"
    using assms i by (simp add: run_try_dry_run)
  then have "run pf connect env s
           = (Inr (), s, [Info ''Dry run enabled, dumping config:'', InfoConfig inputs])"
    by (simp add: run_def)
  then show ?thesis by simp
qed

theorem dry_run_no_requests_witness:
  "read_inputs (demo_env(''dry_run'' := ''true'')) = Inr (demo_inputs\<lparr>dry_run := True\<rparr>)
   \<and> InputSchema demo_platform (demo_inputs\<lparr>dry_run := True\<rparr>)
       = Inr (demo_inputs\<lparr>dry_run := True\<rparr>)
   \<and> dry_run (demo_inputs\<lparr>dry_run := True\<rparr>)
   \<and> run demo_platform (\<lambda>c. Inr demo_client) (demo_env(''dry_run'' := ''true'')) 0
       = (Inr (), 0, [Info ''Dry run enabled, dumping config:'',
                      InfoConfig (demo_inputs\<lparr>dry_run := True\<rparr>)])
   \<and> requests (snd (snd (run demo_platform (\<lambda>c. Inr demo_client)
        (demo_env(''dry_run'' := ''true'')) 0))) = []
   \<and> requests (snd (snd (run demo_platform (\<lambda>c. Inr demo_client) demo_env 0))) \<noteq> []"
proof -
  have h1: "InputSchema demo_platform (demo_inputs\<lparr>dry_run := True\<rparr>)
              = Inr (demo_inputs\<lparr>dry_run := True\<rparr>)"
    by (rule demo_inputs_valid)
  have h2: "dry_run (demo_inputs\<lparr>dry_run := True\<rparr>)" by simp
  have n: "requests (snd (snd (run demo_platform (\<lambda>c. Inr demo_client) demo_env 0))) \<noteq> []"
    by (simp add: demo_run)
  from dry_run_no_requests [OF demo_read(2) h1 h2, of "\<lambda>c. Inr demo_client" 0]
    demo_read(2) h1 h2 n
  show ?thesis by simp
qed

text \<open>
  Claim C8. After a successful upsert in a \<^verbatim>\<open>create_or_update\<close> run, the tickets input
  \<^verbatim>\<open>"AB-1, AB-2"\<close> gives exactly two tagging requests, for the trimmed keys
  \<^verbatim>\<open>AB-1\<close> and then \<^verbatim>\<open>AB-2\<close>, both with the id of the upserted version; when the tracker
  rejects the first, the second is not issued. An empty tickets input gives no tagging
  request. (\<open>setVersionOnIssues\<close> is modelled from the specification.)
\<close>

theorem tickets_tagging:
  assumes "read_inputs env = Inr inputs" "InputSchema pf inputs = Inr inputs"
    "\<not> dry_run inputs" "operation inputs = ''create_or_update''"
    "createJiraClient connect (email inputs) (api_token inputs) (subdomain inputs)
       = Inr client"
    "upsertProjectVersion pf client (jira_project inputs) (upsert_params_of inputs) s
       = (Inr version, s1, ev1)"
  shows "(tickets inputs = ''AB-1, AB-2'' \<longrightarrow>
            tagging_requests (snd (snd (run pf connect env s)))
              = (case fst (editIssue client ''AB-1'' (version_id version) s1) of
                   Inl e \<Rightarrow> [(''AB-1'', version_id version)]
                 | Inr u \<Rightarrow> [(''AB-1'', version_id version), (''AB-2'', version_id version)]))
       \<and> (tickets inputs = [] \<longrightarrow>
            tagging_requests (snd (snd (run pf connect env s))) = [])"
proof -
  have u: "tagging_requests ev1 = []"
    using upsert_no_tagging [of pf client "jira_project inputs" "upsert_params_of inputs" s]
      assms(6) by simp
  have r: "tagging_requests (snd (snd (run pf connect env s)))
             = tagging_requests (snd (snd (run_try pf connect env s)))"
    by (simp add: run_events tagging_requests_append split: sum.splits)
  have t: "run_try pf connect env s =
           (case (if tickets inputs \<noteq> [] then
                    setVersionOnIssues client (version_id version)
                      (map trim (split_on CHR '','' (tickets inputs)))
                  else io_return ()) s1 of
              (r, s2, ev2) \<Rightarrow>
                (r, s2, Info (''Performing release operation '' @ operation inputs
                  @ '' on project '' @ jira_project inputs
                  @ '' for release '' @ release_name inputs @ ''...'') # ev1 @ ev2))"
    using assms by (rule run_try_create_or_update)
  show ?thesis
  proof (intro conjI impI)
    assume k: "tickets inputs = ''AB-1, AB-2''"
    obtain r2 s2 ev2 where
      g: "setVersionOnIssues client (version_id version) [''AB-1'', ''AB-2''] s1 = (r2, s2, ev2)"
      by (cases "setVersionOnIssues client (version_id version) [''AB-1'', ''AB-2''] s1") auto
    have "tagging_requests ev2
            = (case fst (editIssue client ''AB-1'' (version_id version) s1) of
                   Inl e \<Rightarrow> [(''AB-1'', version_id version)]
                 | Inr u \<Rightarrow> [(''AB-1'', version_id version), (''AB-2'', version_id version)])"
      using tagging_two [of client "version_id version" "''AB-1''" "''AB-2''" s1] g by simp
    moreover have "run_try pf connect env s
        = (r2, s2, Info (''Performing release operation '' @ operation inputs
                  @ '' on project '' @ jira_project inputs
                  @ '' for release '' @ release_name inputs @ ''...'') # ev1 @ ev2)"
      using t k g by (simp add: split_two_tickets del: split_on.simps setVersionOnIssues.simps)
    ultimately show "tagging_requests (snd (snd (run pf connect env s)))
              = (case fst (editIssue client ''AB-1'' (version_id version) s1) of
                   Inl e \<Rightarrow> [(''AB-1'', version_id version)]
                 | Inr u \<Rightarrow> [(''AB-1'', version_id version), (''AB-2'', version_id version)])"
      using r u by (simp add: tagging_requests_append)
  next
    assume k: "tickets inputs = []"
    have "run_try pf connect env s
        = (Inr (), s1, Info (''Performing release operation '' @ operation inputs
                  @ '' on project '' @ jira_project inputs
                  @ '' for release '' @ release_name inputs @ ''...'') # ev1)"
      using t k by (simp add: io_return_def)
    then show "tagging_requests (snd (snd (run pf connect env s))) = []"
      using r u by simp
  qed
qed

theorem tickets_tagging_witness:
  "demo_env ''tickets'' = '' AB-1, AB-2 ''
   \<and> tagging_requests (snd (snd (run demo_platform (\<lambda>c. Inr demo_client) demo_env 0)))
     = [(''AB-1'', Some ''10003''), (''AB-2'', Some ''10003'')]
   \<and> tagging_requests (snd (snd (run demo_platform (\<lambda>c. Inr tag_failing_client) demo_env 0)))
     = [(''AB-1'', Some ''10003'')]
   \<and> failure_signals (snd (snd (run demo_platform (\<lambda>c. Inr tag_failing_client) demo_env 0)))
     = [''Issue does not exist'']
   \<and> tagging_requests (snd (snd (run demo_platform (\<lambda>c. Inr demo_client)
        (demo_env(''tickets'' := ''  '')) 0))) = []"
proof -
  let ?v = "\<lparr>version_id = Some ''10003'', version_name = Some ''v1.2.0''\<rparr>"
  let ?ev = "[Info ''Getting version v1.2.0...'',
               Request (GetProjectVersionsPaginated ''AB'' ''v1.2.0''),
               Info ''Updating project version v1.2.0...'',
               Request (UpdateVersion (undated_spec\<lparr>releaseDate := Some ''2024-11-03''\<rparr>)
                          ''10003'')]"
  have d': "\<not> dry_run (demo_inputs\<lparr>tickets := []\<rparr>)"
    "operation (demo_inputs\<lparr>tickets := []\<rparr>) = ''create_or_update''"
    "tickets (demo_inputs\<lparr>tickets := []\<rparr>) = []"
    by (simp_all add: demo_inputs_def)
  have u1: "upsertProjectVersion demo_platform demo_client (jira_project demo_inputs)
              (upsert_params_of demo_inputs) 0 = (Inr ?v, 2, ?ev)"
    using demo_upsert_undated [of demo_client]
    by (simp add: demo_inputs_simps demo_client_simps undated_spec_def)
  have u2: "upsertProjectVersion demo_platform tag_failing_client (jira_project demo_inputs)
              (upsert_params_of demo_inputs) 0 = (Inr ?v, 2, ?ev)"
    using demo_upsert_undated [of tag_failing_client]
    by (simp add: demo_inputs_simps tag_failing_client_simps undated_spec_def)
  have u3: "upsertProjectVersion demo_platform demo_client
              (jira_project (demo_inputs\<lparr>tickets := []\<rparr>))
              (upsert_params_of (demo_inputs\<lparr>tickets := []\<rparr>)) 0 = (Inr ?v, 2, ?ev)"
    using demo_upsert_undated [of demo_client]
    by (simp add: demo_inputs_simps demo_client_simps undated_spec_def)
  have a: "tagging_requests (snd (snd (run demo_platform (\<lambda>c. Inr demo_client) demo_env 0)))
     = [(''AB-1'', Some ''10003''), (''AB-2'', Some ''10003'')]"
    using tickets_tagging [OF demo_read(1) demo_inputs_valid(1) demo_inputs_simps(5)
        demo_inputs_simps(4) demo_connect u1]
    by (simp add: demo_inputs_simps demo_client_simps)
  have b: "tagging_requests (snd (snd (run demo_platform (\<lambda>c. Inr tag_failing_client)
             demo_env 0))) = [(''AB-1'', Some ''10003'')]"
    using tickets_tagging [OF demo_read(1) demo_inputs_valid(1) demo_inputs_simps(5)
        demo_inputs_simps(4) demo_connect u2]
    by (simp add: demo_inputs_simps tag_failing_client_simps)
  have c: "tagging_requests (snd (snd (run demo_platform (\<lambda>c. Inr demo_client)
        (demo_env(''tickets'' := ''  '')) 0))) = []"
    using tickets_tagging [OF demo_read(3) demo_inputs_valid(2) d'(1) d'(2) demo_connect u3]
      d'(3)
    by simp
  have f: "failure_signals (snd (snd (run demo_platform (\<lambda>c. Inr tag_failing_client)
             demo_env 0))) = [''Issue does not exist'']"
    by (simp add: demo_run_tag_failing)
  have e: "demo_env ''tickets'' = '' AB-1, AB-2 ''"
    by (simp add: demo_env_def env_of_def)
  from a b c f e show ?thesis by simp
qed

text \<open>
  Claim C9. For every valid date input string, date normalization is idempotent:
  normalizing the normalized string again gives the same string, in both shapes in which
  \<^verbatim>\<open>jira.ts\<close> normalizes (\<open>reformat_or_undefined\<close>, \<open>reformat_if_set\<close>), so that
  \<open>prepareUpsertParams\<close> returns a released version's normalized date unchanged. A valid
  input is a non-empty string that \<^verbatim>\<open>new Date\<close> turns into a valid date.
\<close>

theorem renormalization_idempotent:
  assumes "s \<noteq> []" "new_Date (date_parse_other pf) s \<noteq> None"
  shows "\<exists>n. reformat_or_undefined pf (Some s) = Inr (Some n)
             \<and> reformat_or_undefined pf (Some n) = Inr (Some n)
             \<and> reformat_if_set pf (Some n) = Inr (Some n)
             \<and> (\<forall>params. released params \<longrightarrow>
                   prepareUpsertParams pf (params\<lparr>releaseDate := Some n\<rparr>)
                     = Inr (params\<lparr>releaseDate := Some n\<rparr>))"
proof -
  from assms(2) obtain t where t: "new_Date (date_parse_other pf) s = Some t" by blast
  then have r: "in_range t" by (rule new_Date_in_range)
  let ?n = "utc_day_string t"
  have "reformat_or_undefined pf (Some s) = Inr (Some ?n)"
    using assms(1) t by (simp add: reformat_or_undefined_def iso_date_part_Some)
  moreover have "reformat_or_undefined pf (Some ?n) = Inr (Some ?n)"
    using r by (rule reformat_utc_day_string)
  moreover have "reformat_if_set pf (Some ?n) = Inr (Some ?n)"
    using r by (rule reformat_utc_day_string)
  moreover have "\<forall>params. released params \<longrightarrow>
                   prepareUpsertParams pf (params\<lparr>releaseDate := Some ?n\<rparr>)
                     = Inr (params\<lparr>releaseDate := Some ?n\<rparr>)"
  proof (intro allI impI)
    fix params :: ProjectVersionUpsertParams
    assume "released params"
    then show "prepareUpsertParams pf (params\<lparr>releaseDate := Some ?n\<rparr>)
                     = Inr (params\<lparr>releaseDate := Some ?n\<rparr>)"
      using prepare_released_date [of "params\<lparr>releaseDate := Some ?n\<rparr>" t pf] r by simp
  qed
  ultimately show ?thesis by blast
qed

theorem renormalization_idempotent_witness:
  "''March 5, 2024'' \<noteq> [] \<and> new_Date (date_parse_other demo_platform) ''March 5, 2024'' \<noteq> None
   \<and> reformat_or_undefined demo_platform (Some ''March 5, 2024'') = Inr (Some ''2024-03-05'')
   \<and> reformat_or_undefined demo_platform (Some ''2024-03-05'') = Inr (Some ''2024-03-05'')
   \<and> reformat_if_set demo_platform (Some ''2024-03-05'') = Inr (Some ''2024-03-05'')"
proof -
  have h1: "''March 5, 2024'' \<noteq> []" by simp
  have h2: "new_Date (date_parse_other demo_platform) ''March 5, 2024'' \<noteq> None"
    by (simp add: demo_new_Date)
  have e: "reformat_or_undefined demo_platform (Some ''March 5, 2024'')
             = Inr (Some ''2024-03-05'')"
    by (rule demo_reformat)
  from renormalization_idempotent [OF h1 h2]
  obtain n where n: "reformat_or_undefined demo_platform (Some ''March 5, 2024'') = Inr (Some n)"
      "reformat_or_undefined demo_platform (Some n) = Inr (Some n)"
      "reformat_if_set demo_platform (Some n) = Inr (Some n)"
    by blast
  from n(1) e have "n = ''2024-03-05''" by simp
  with n h1 h2 e show ?thesis by simp
qed

text \<open>
  Claim C10, as the specification states it: for every configuration whose
  \<^verbatim>\<open>release_release_date\<close> is non-empty and consists of whitespace only, validation
  succeeds, yet the \<^verbatim>\<open>create_or_update\<close> path then applies date parsing to the untrimmed
  string, so that the error branch of that parse is reachable after validation has
  passed. \<^verbatim>\<open>run\<close> reads every input through \<^verbatim>\<open>core.getInput\<close>, which trims: the
  whitespace is read as the empty string, which \<^verbatim>\<open>run\<close> passes on as no date at all.
  Below the input is two spaces, which the engine's parser rejects: the run reads the
  example's configuration, resolves, signals no failure and sends today's date.
\<close>

theorem whitespace_date_is_trimmed_counterexample:
  "(demo_env(''release_release_date'' := ''  '')) ''release_release_date'' = ''  ''
   \<and> ''  '' \<noteq> [] \<and> list_all is_ws ''  ''
   \<and> new_Date (date_parse_other demo_platform) ''  '' = None
   \<and> read_inputs (demo_env(''release_release_date'' := ''  '')) = Inr demo_inputs
   \<and> release_release_date demo_inputs = []
   \<and> InputSchema demo_platform demo_inputs = Inr demo_inputs
   \<and> run demo_platform (\<lambda>c. Inr demo_client) (demo_env(''release_release_date'' := ''  '')) 0
       = (Inr (), 4,
          [Info ''Performing release operation create_or_update on project AB for release v1.2.0...'',
           Info ''Getting version v1.2.0...'',
           Request (GetProjectVersionsPaginated ''AB'' ''v1.2.0''),
           Info ''Updating project version v1.2.0...'',
           Request (UpdateVersion (undated_spec\<lparr>releaseDate := Some ''2024-11-03''\<rparr>) ''10003''),
           Request (EditIssue ''AB-1'' (Some ''10003'')),
           Request (EditIssue ''AB-2'' (Some ''10003''))])
   \<and> failure_signals (snd (snd (run demo_platform (\<lambda>c. Inr demo_client)
        (demo_env(''release_release_date'' := ''  '')) 0))) = []"
proof -
  have "run demo_platform (\<lambda>c. Inr demo_client) (demo_env(''release_release_date'' := ''  '')) 0
          = run demo_platform (\<lambda>c. Inr demo_client) demo_env 0"
    by (simp add: run_def run_try_def demo_read)
  then show ?thesis
    by (simp add: demo_run demo_read demo_new_Date demo_inputs_valid is_ws_def)
      (simp add: demo_inputs_def)
qed

text \<open>
  Claim C10, amended. A configuration object whose \<^verbatim>\<open>release_release_date\<close> is
  non-empty and consists of whitespace only passes \<open>InputSchema\<close> (the check trims before
  it tests), given one of the two operations; and \<open>upsertProjectVersion\<close>, called with
  such a date, applies \<^verbatim>\<open>new Date\<close> to the untrimmed string, which is not in the
  standard format, and throws a \<^verbatim>\<open>RangeError\<close> before any request when the engine's
  own parser rejects it. \<open>run\<close> never builds such a configuration: the date it reads is
  the trimmed input, a whitespace-only input is read as the empty string and passed on as
  no date, and once the inputs that were read have passed validation the first
  normalization step of upsert returns.
\<close>

theorem whitespace_date_read_as_empty:
  "(read_inputs env = Inr inputs
      \<longrightarrow> release_release_date inputs = trim (env ''release_release_date'')
          \<and> ((\<forall>c \<in> set (env ''release_release_date''). is_ws c)
               \<longrightarrow> release_release_date inputs = []
                   \<and> releaseDate (upsert_params_of inputs) = None)
          \<and> (InputSchema pf inputs = Inr inputs
               \<longrightarrow> (\<exists>d. reformat_or_undefined pf (releaseDate (upsert_params_of inputs))
                          = Inr d)))
   \<and> (d \<noteq> [] \<and> (\<forall>c \<in> set d. is_ws c)
      \<longrightarrow> (release_release_date cfg = d
             \<and> (operation cfg = ''create_or_update'' \<or> operation cfg = ''delete'')
             \<longrightarrow> InputSchema pf cfg = Inr cfg
                 \<and> releaseDate (upsert_params_of cfg) = Some d)
          \<and> new_Date (date_parse_other pf) d
              = (case date_parse_other pf d of None \<Rightarrow> None | Some t \<Rightarrow> TimeClip t)
          \<and> (releaseDate params = Some d \<and> new_Date (date_parse_other pf) d = None
             \<longrightarrow> upsertProjectVersion pf client key params s
                   = (Inl (ErrorInstance ''RangeError'' ''Invalid time value''), s, [])))"
proof (rule conjI)
  show "read_inputs env = Inr inputs
      \<longrightarrow> release_release_date inputs = trim (env ''release_release_date'')
          \<and> ((\<forall>c \<in> set (env ''release_release_date''). is_ws c)
               \<longrightarrow> release_release_date inputs = []
                   \<and> releaseDate (upsert_params_of inputs) = None)
          \<and> (InputSchema pf inputs = Inr inputs
               \<longrightarrow> (\<exists>d. reformat_or_undefined pf (releaseDate (upsert_params_of inputs))
                          = Inr d))"
  proof
    assume r: "read_inputs env = Inr inputs"
    have a: "release_release_date inputs = trim (env ''release_release_date'')"
      using r by (rule read_inputs_strings)
    have b: "(\<forall>c \<in> set (env ''release_release_date''). is_ws c)
               \<longrightarrow> release_release_date inputs = []
                   \<and> releaseDate (upsert_params_of inputs) = None"
      using a by (simp add: trim_whitespace upsert_params_of_def)
    have c: "InputSchema pf inputs = Inr inputs
               \<longrightarrow> (\<exists>d. reformat_or_undefined pf (releaseDate (upsert_params_of inputs))
                          = Inr d)"
      using validated_date_reformats [OF r] by blast
    show "release_release_date inputs = trim (env ''release_release_date'')
          \<and> ((\<forall>c \<in> set (env ''release_release_date''). is_ws c)
               \<longrightarrow> release_release_date inputs = []
                   \<and> releaseDate (upsert_params_of inputs) = None)
          \<and> (InputSchema pf inputs = Inr inputs
               \<longrightarrow> (\<exists>d. reformat_or_undefined pf (releaseDate (upsert_params_of inputs))
                          = Inr d))"
      by (rule conjI [OF a conjI [OF b c]])
  qed
next
  show "d \<noteq> [] \<and> (\<forall>c \<in> set d. is_ws c)
      \<longrightarrow> (release_release_date cfg = d
             \<and> (operation cfg = ''create_or_update'' \<or> operation cfg = ''delete'')
             \<longrightarrow> InputSchema pf cfg = Inr cfg
                 \<and> releaseDate (upsert_params_of cfg) = Some d)
          \<and> new_Date (date_parse_other pf) d
              = (case date_parse_other pf d of None \<Rightarrow> None | Some t \<Rightarrow> TimeClip t)
          \<and> (releaseDate params = Some d \<and> new_Date (date_parse_other pf) d = None
             \<longrightarrow> upsertProjectVersion pf client key params s
                   = (Inl (ErrorInstance ''RangeError'' ''Invalid time value''), s, []))"
  proof
    assume h: "d \<noteq> [] \<and> (\<forall>c \<in> set d. is_ws c)"
    then have t: "trim d = []" by (simp add: trim_whitespace)
    have p: "parse_iso_date d = None"
      using h by (simp add: parse_iso_date_whitespace)
    have a: "release_release_date cfg = d
             \<and> (operation cfg = ''create_or_update'' \<or> operation cfg = ''delete'')
             \<longrightarrow> InputSchema pf cfg = Inr cfg
                 \<and> releaseDate (upsert_params_of cfg) = Some d"
      using h t by (auto simp: InputSchema_def release_date_check_def upsert_params_of_def)
    have b: "new_Date (date_parse_other pf) d
              = (case date_parse_other pf d of None \<Rightarrow> None | Some t \<Rightarrow> TimeClip t)"
      using p by (simp add: new_Date_def Date_parse_def)
    have c: "releaseDate params = Some d \<and> new_Date (date_parse_other pf) d = None
             \<longrightarrow> upsertProjectVersion pf client key params s
                   = (Inl (ErrorInstance ''RangeError'' ''Invalid time value''), s, [])"
      using h by (simp add: upsert_result reformat_or_undefined_def iso_date_part_None)
    show "(release_release_date cfg = d
             \<and> (operation cfg = ''create_or_update'' \<or> operation cfg = ''delete'')
             \<longrightarrow> InputSchema pf cfg = Inr cfg
                 \<and> releaseDate (upsert_params_of cfg) = Some d)
          \<and> new_Date (date_parse_other pf) d
              = (case date_parse_other pf d of None \<Rightarrow> None | Some t \<Rightarrow> TimeClip t)
          \<and> (releaseDate params = Some d \<and> new_Date (date_parse_other pf) d = None
             \<longrightarrow> upsertProjectVersion pf client key params s
                   = (Inl (ErrorInstance ''RangeError'' ''Invalid time value''), s, []))"
      by (rule conjI [OF a conjI [OF b c]])
  qed
qed

theorem whitespace_date_read_as_empty_witness:
  "read_inputs (demo_env(''release_release_date'' := ''  '')) = Inr demo_inputs
   \<and> list_all is_ws ((demo_env(''release_release_date'' := ''  '')) ''release_release_date'')
   \<and> release_release_date demo_inputs = []
   \<and> releaseDate (upsert_params_of demo_inputs) = None
   \<and> InputSchema demo_platform demo_inputs = Inr demo_inputs
   \<and> reformat_or_undefined demo_platform (releaseDate (upsert_params_of demo_inputs))
       = Inr None
   \<and> ''  '' \<noteq> [] \<and> list_all is_ws ''  ''
   \<and> operation (demo_inputs\<lparr>release_release_date := ''  ''\<rparr>) = ''create_or_update''
   \<and> InputSchema demo_platform (demo_inputs\<lparr>release_release_date := ''  ''\<rparr>)
       = Inr (demo_inputs\<lparr>release_release_date := ''  ''\<rparr>)
   \<and> releaseDate (upsert_params_of (demo_inputs\<lparr>release_release_date := ''  ''\<rparr>))
       = Some ''  ''
   \<and> new_Date (date_parse_other demo_platform) ''  '' = None
   \<and> upsertProjectVersion demo_platform demo_client ''AB''
         (undated_spec\<lparr>releaseDate := Some ''  ''\<rparr>) 0
       = (Inl (ErrorInstance ''RangeError'' ''Invalid time value''), 0, [])"
proof -
  let ?env = "demo_env(''release_release_date'' := ''  '')"
  let ?cfg = "demo_inputs\<lparr>release_release_date := ''  ''\<rparr>"
  let ?p = "undated_spec\<lparr>releaseDate := Some ''  ''\<rparr>"
  note w = whitespace_date_read_as_empty [where env = ?env and inputs = demo_inputs
      and pf = demo_platform and d = "''  ''" and cfg = ?cfg and params = ?p
      and client = demo_client and key = "''AB''" and s = 0]
  have r: "read_inputs ?env = Inr demo_inputs" by (rule demo_read)
  have h: "''  '' \<noteq> []" "\<forall>c \<in> set ''  ''. is_ws c"
    "\<forall>c \<in> set (?env ''release_release_date''). is_ws c"
    by (simp_all add: is_ws_def)
  have v: "InputSchema demo_platform demo_inputs = Inr demo_inputs"
    by (rule demo_inputs_valid)
  have o: "operation ?cfg = ''create_or_update''" "release_release_date ?cfg = ''  ''"
    "releaseDate ?p = Some ''  ''"
    by (simp_all add: demo_inputs_def)
  have n: "new_Date (date_parse_other demo_platform) ''  '' = None" by (rule demo_new_Date)
  have a: "release_release_date demo_inputs = []
           \<and> releaseDate (upsert_params_of demo_inputs) = None"
    using w r h(3) by blast
  have b: "\<exists>d. reformat_or_undefined demo_platform (releaseDate (upsert_params_of demo_inputs))
             = Inr d"
    using w r v by blast
  with a have b': "reformat_or_undefined demo_platform
                     (releaseDate (upsert_params_of demo_inputs)) = Inr None"
    by (simp add: reformat_or_undefined_def)
  have c: "InputSchema demo_platform ?cfg = Inr ?cfg
           \<and> releaseDate (upsert_params_of ?cfg) = Some ''  ''"
    using w h(1,2) o(1,2) by blast
  have e: "upsertProjectVersion demo_platform demo_client ''AB'' ?p 0
       = (Inl (ErrorInstance ''RangeError'' ''Invalid time value''), 0, [])"
    using w h(1,2) o(3) n by blast
  from r h a v b' o(1) c n e show ?thesis by (simp add: list_all_iff)
qed

end
